theory Spec2Isabelle
  imports Complex_Main
begin

section \<open>Python values used by the controller\<close>

text \<open>
  The controller \<^verbatim>\<open>mult.py\<close> reads result logs, scores their records with Python
  floats and copies lines of hardware-description files. Strings are lists of
  characters; a text file is the list of its lines exactly as Python's file iterator
  yields them (every line carries its own terminator, the last one possibly none).
\<close>

subsection \<open>Exceptions\<close>

datatype py_error =
    AssertionError string
  | IndexError
  | ValueError
  | TypeError
  | FileNotFoundError string
  | UnboundLocalError

definition ebind :: "py_error + 'a \<Rightarrow> ('a \<Rightarrow> py_error + 'b) \<Rightarrow> py_error + 'b" where
  "ebind m f = (case m of Inl e \<Rightarrow> Inl e | Inr v \<Rightarrow> f v)"

subsection \<open>Strings\<close>

abbreviation TAB :: char where "TAB \<equiv> CHR 0x09"
abbreviation NL :: char where "NL \<equiv> CHR 0x0A"

text \<open>\<^verbatim>\<open>str.isspace\<close> on one character (code points up to 255).\<close>

definition isspace :: "char \<Rightarrow> bool" where
  "isspace c = (of_char c \<in> {9, 10, 11, 12, 13, 28, 29, 30, 31, 32, 133, 160 :: nat})"

text \<open>\<^verbatim>\<open>s.strip()\<close>: whitespace removed at both ends.\<close>

definition strip :: "string \<Rightarrow> string" where
  "strip s = rev (dropWhile isspace (rev (dropWhile isspace s)))"

text \<open>\<^verbatim>\<open>s.split(sep)\<close> for a one-character separator: always at least one field.\<close>

fun split_on :: "char \<Rightarrow> string \<Rightarrow> string list" where
  "split_on sep [] = [[]]"
| "split_on sep (c # cs) =
     (if c = sep then [] # split_on sep cs
      else (case split_on sep cs of
              [] \<Rightarrow> [[c]]
            | f # fs \<Rightarrow> (c # f) # fs))"

text \<open>\<^verbatim>\<open>s.startswith(p)\<close>.\<close>

definition startswith :: "string \<Rightarrow> string \<Rightarrow> bool" where
  "startswith s p = (take (length p) s = p)"

text \<open>\<^verbatim>\<open>str(n)\<close> for an integer: decimal digits, a minus sign when negative.\<close>

fun str_nat :: "nat \<Rightarrow> string" where
  "str_nat n =
     (if n < 10 then [''0123456789'' ! n]
      else str_nat (n div 10) @ [''0123456789'' ! (n mod 10)])"

declare str_nat.simps [simp del]

definition str_int :: "int \<Rightarrow> string" where
  "str_int k = (if k < 0 then CHR ''-'' # str_nat (nat (- k)) else str_nat (nat k))"

text \<open>\<^verbatim>\<open>os.path.join(a, b)\<close> (POSIX): an absolute second component replaces the first.\<close>

definition os_path_join :: "string \<Rightarrow> string \<Rightarrow> string" where
  "os_path_join a b =
     (if startswith b ''/'' then b
      else if a = [] \<or> last a = CHR ''/'' then a @ b
      else a @ ''/'' @ b)"

subsection \<open>Floats\<close>

text \<open>
  A Python float is a finite number, an infinity or a NaN. The finite values of the
  machine format are rationals; the result of an operation on finite values is the exact
  result passed through the rounding of the format, a function \<open>rnd\<close> that every
  operation takes as a parameter (it may overflow to an infinity). The two zeros compare
  equal and are one value here.
\<close>

datatype pyfloat = Fin rat | PInf | NInf | NaN

fun float_lt :: "pyfloat \<Rightarrow> pyfloat \<Rightarrow> bool" where
  "float_lt NaN _ = False"
| "float_lt _ NaN = False"
| "float_lt (Fin a) (Fin b) = (a < b)"
| "float_lt (Fin _) PInf = True"
| "float_lt (Fin _) NInf = False"
| "float_lt PInf _ = False"
| "float_lt NInf NInf = False"
| "float_lt NInf _ = True"

fun float_add :: "(rat \<Rightarrow> pyfloat) \<Rightarrow> pyfloat \<Rightarrow> pyfloat \<Rightarrow> pyfloat" where
  "float_add rnd NaN _ = NaN"
| "float_add rnd _ NaN = NaN"
| "float_add rnd (Fin a) (Fin b) = rnd (a + b)"
| "float_add rnd PInf NInf = NaN"
| "float_add rnd NInf PInf = NaN"
| "float_add rnd PInf _ = PInf"
| "float_add rnd NInf _ = NInf"
| "float_add rnd (Fin _) PInf = PInf"
| "float_add rnd (Fin _) NInf = NInf"

fun float_neg :: "pyfloat \<Rightarrow> pyfloat" where
  "float_neg (Fin a) = Fin (- a)"
| "float_neg PInf = NInf"
| "float_neg NInf = PInf"
| "float_neg NaN = NaN"

fun float_mul :: "(rat \<Rightarrow> pyfloat) \<Rightarrow> pyfloat \<Rightarrow> pyfloat \<Rightarrow> pyfloat" where
  "float_mul rnd NaN _ = NaN"
| "float_mul rnd _ NaN = NaN"
| "float_mul rnd (Fin a) (Fin b) = rnd (a * b)"
| "float_mul rnd (Fin a) y =
     (if a = 0 then NaN else if 0 < a then y else float_neg y)"
| "float_mul rnd x (Fin b) =
     (if b = 0 then NaN else if 0 < b then x else float_neg x)"
| "float_mul rnd x y = (if x = y then PInf else NInf)"


section \<open>What the module takes from outside\<close>

text \<open>
  A file system maps a path to the lines of the file stored there. Directories are not
  modelled: creating a file for writing always succeeds.
\<close>

type_synonym filesystem = "string \<rightharpoonup> string list"

text \<open>
  The builtins, the command line and the surroundings of one run:
  \<^item> \<open>py_float\<close> is the builtin \<^verbatim>\<open>float(s)\<close> on a string (\<open>None\<close> when it raises
    \<^verbatim>\<open>ValueError\<close>), \<open>rnd\<close> the rounding of the float format;
  \<^item> \<open>area_w\<close> and \<open>arg_input_bit\<close> are \<^verbatim>\<open>args.area_w\<close> and \<^verbatim>\<open>args.input_bit\<close>,
    \<open>area_w_2f\<close> the text of \<^verbatim>\<open>f"{args.area_w:.2f}"\<close>;
  \<^item> \<open>timestamp\<close> is the text \<^verbatim>\<open>time.strftime\<close> returns at the start of \<^verbatim>\<open>main\<close>,
    \<open>elapsed_2f n\<close> the text of the \<open>n\<close>-th elapsed time written to the run log;
  \<^item> \<open>run_job\<close> is \<^verbatim>\<open>capture_subprocess_output\<close>: the external job started with a
    command, the success flag and output it returns, and the files it leaves.
\<close>

record world =
  py_float :: "string \<Rightarrow> pyfloat option"
  rnd :: "rat \<Rightarrow> pyfloat"
  area_w :: pyfloat
  area_w_2f :: string
  arg_input_bit :: int
  timestamp :: string
  elapsed_2f :: "nat \<Rightarrow> string"
  run_job :: "string list \<Rightarrow> filesystem \<Rightarrow> (bool \<times> string) \<times> filesystem"

definition BASE_DIR :: string where
  "BASE_DIR = ''/content/ArithmeticTree''"

definition MULT_LOGS_DIR :: string where
  "MULT_LOGS_DIR = os_path_join BASE_DIR ''mult_logs''"

definition MCTS_LOGS_DIR :: string where
  "MCTS_LOGS_DIR = os_path_join BASE_DIR ''mcts_mult_adder''"

section \<open>Reading the result logs\<close>

text \<open>\<^verbatim>\<open>parts[k]\<close> and \<^verbatim>\<open>float(parts[k])\<close>, with the exceptions they raise.\<close>

definition item :: "'a list \<Rightarrow> nat \<Rightarrow> py_error + 'a" where
  "item xs k = (if k < length xs then Inr (xs ! k) else Inl IndexError)"

definition float_item :: "world \<Rightarrow> string list \<Rightarrow> nat \<Rightarrow> py_error + pyfloat" where
  "float_item W parts k =
     ebind (item parts k)
       (\<lambda>p. case py_float W p of None \<Rightarrow> Inl ValueError | Some v \<Rightarrow> Inr v)"

definition ppo_log_path :: "string \<Rightarrow> int \<Rightarrow> string" where
  "ppo_log_path strftime_str input_bit =
     os_path_join MULT_LOGS_DIR
       (''mult_'' @ str_int input_bit @ ''b_'' @ strftime_str @ ''.log'')"

definition mcts_log_path :: "string \<Rightarrow> int \<Rightarrow> string" where
  "mcts_log_path strftime_str input_bit =
     os_path_join MCTS_LOGS_DIR
       (''mcts_mult_adder_'' @ str_int input_bit @ ''b_openroad_'' @ strftime_str @ ''.log'')"

text \<open>
  The loop of \<^verbatim>\<open>get_best_file_from_ppo\<close> over the lines of the log; the state is
  \<open>(best_score, best_verilog_file, best_data_line)\<close>.
\<close>

fun ppo_loop ::
  "world \<Rightarrow> string list \<Rightarrow> pyfloat \<times> string option \<times> string option
     \<Rightarrow> py_error + (string option \<times> string option)" where
  "ppo_loop W [] (best_score, best_verilog_file, best_data_line) =
     Inr (best_verilog_file, best_data_line)"
| "ppo_loop W (line # rest) (best_score, best_verilog_file, best_data_line) =
     (let raw_line = strip line;
          parts = split_on TAB raw_line
      in ebind (float_item W parts 1) (\<lambda>f1.
         ebind (float_item W parts 2) (\<lambda>f2.
         ebind (float_item W parts 3) (\<lambda>f3.
         ebind (float_item W parts 4) (\<lambda>f4.
           let score =
                 float_add (rnd W)
                   (float_add (rnd W)
                      (float_add (rnd W) f1 (float_mul (rnd W) f2 (area_w W)))
                      f3)
                   (float_mul (rnd W) f4 (area_w W))
           in if float_lt score best_score
              then ebind (item parts 0) (\<lambda>p0.
                     ppo_loop W rest (score, Some p0, Some raw_line))
              else ppo_loop W rest (best_score, best_verilog_file, best_data_line))))))"

definition get_best_file_from_ppo ::
  "world \<Rightarrow> filesystem \<Rightarrow> string \<Rightarrow> int \<Rightarrow> py_error + (string option \<times> string option)" where
  "get_best_file_from_ppo W fs strftime_str input_bit =
     (let log_path = ppo_log_path strftime_str input_bit
      in case fs log_path of
           None \<Rightarrow> Inl (AssertionError (''[ERROR] '' @ log_path @ '' does not exist.''))
         | Some lines \<Rightarrow> ppo_loop W lines (PInf, None, None))"

text \<open>The loop of \<^verbatim>\<open>get_best_file_from_mcts\<close>, written out in the source a second time.\<close>

fun mcts_loop ::
  "world \<Rightarrow> string list \<Rightarrow> pyfloat \<times> string option \<times> string option
     \<Rightarrow> py_error + (string option \<times> string option)" where
  "mcts_loop W [] (best_score, best_verilog_file, best_data_line) =
     Inr (best_verilog_file, best_data_line)"
| "mcts_loop W (line # rest) (best_score, best_verilog_file, best_data_line) =
     (let raw_line = strip line;
          parts = split_on TAB raw_line
      in ebind (float_item W parts 1) (\<lambda>m1.
         ebind (float_item W parts 2) (\<lambda>m2.
         ebind (float_item W parts 3) (\<lambda>m3.
         ebind (float_item W parts 4) (\<lambda>m4.
           let score =
                 float_add (rnd W)
                   (float_add (rnd W)
                      (float_add (rnd W) m1 (float_mul (rnd W) m2 (area_w W)))
                      m3)
                   (float_mul (rnd W) m4 (area_w W))
           in if float_lt score best_score
              then ebind (item parts 0) (\<lambda>p0.
                     mcts_loop W rest (score, Some p0, Some raw_line))
              else mcts_loop W rest (best_score, best_verilog_file, best_data_line))))))"

definition get_best_file_from_mcts ::
  "world \<Rightarrow> filesystem \<Rightarrow> string \<Rightarrow> int \<Rightarrow> py_error + (string option \<times> string option)" where
  "get_best_file_from_mcts W fs strftime_str input_bit =
     (let log_path = mcts_log_path strftime_str input_bit
      in case fs log_path of
           None \<Rightarrow> Inl (AssertionError (''[ERROR] '' @ log_path @ '' does not exist.''))
         | Some lines \<Rightarrow> mcts_loop W lines (PInf, None, None))"

section \<open>Extracting the templates\<close>

definition adder_marker :: string where
  "adder_marker = ''module adder(a,b,s);''"

text \<open>The loop of \<^verbatim>\<open>save_mult_file\<close>: the lines written to the destination.\<close>

fun mult_copy :: "string list \<Rightarrow> string list" where
  "mult_copy [] = []"
| "mult_copy (line # rest) =
     (if \<not> startswith line adder_marker then line # mult_copy rest else [])"

definition mult_template_name :: "string \<Rightarrow> string" where
  "mult_template_name strftime_str = ''mult_template_'' @ strftime_str @ ''.v''"

text \<open>
  \<^verbatim>\<open>save_mult_file\<close>. The name is the first field of the selected record, or \<^verbatim>\<open>None\<close>
  when nothing was selected, on which \<^verbatim>\<open>os.path.join\<close> raises. The source is opened
  first, then the destination is created empty, then the source is read.
\<close>

definition save_mult_file ::
  "filesystem \<Rightarrow> string option \<Rightarrow> string \<Rightarrow> py_error + (string \<times> filesystem)" where
  "save_mult_file fs verilog_file_name strftime_str =
     (case verilog_file_name of
        None \<Rightarrow> Inl TypeError
      | Some name \<Rightarrow>
          let source_path =
                os_path_join (os_path_join BASE_DIR ''run_verilog_mult_mid'') name;
              dest_dir = os_path_join BASE_DIR ''multiplier_template'';
              template_mult_name = mult_template_name strftime_str;
              dest_path = os_path_join dest_dir template_mult_name
          in if fs source_path = None then Inl (FileNotFoundError source_path)
             else let fs1 = fs(dest_path \<mapsto> [])
                  in (case fs1 source_path of
                        None \<Rightarrow> Inl (FileNotFoundError source_path)
                      | Some lines \<Rightarrow>
                          Inr (template_mult_name, fs1(dest_path \<mapsto> mult_copy lines))))"

text \<open>The loop of \<^verbatim>\<open>save_adder_file\<close>; the state is \<open>(cnt, find_adder)\<close>.\<close>

fun adder_copy :: "int \<Rightarrow> string list \<Rightarrow> int \<times> bool \<Rightarrow> string list" where
  "adder_copy input_bit [] (cnt, find_adder) = []"
| "adder_copy input_bit (line # rest) (cnt, find_adder) =
     (if \<not> startswith line ''//'' then
        (let find_adder' = (if startswith line adder_marker then True else find_adder)
         in if find_adder' then line # adder_copy input_bit rest (cnt, find_adder')
            else adder_copy input_bit rest (cnt, find_adder'))
      else if CHR ''2'' \<in> set line then adder_copy input_bit rest (cnt, find_adder)
      else if cnt < input_bit then line # adder_copy input_bit rest (cnt + 1, find_adder)
      else adder_copy input_bit rest (cnt, find_adder))"

definition adder_template_name :: "string \<Rightarrow> string" where
  "adder_template_name strftime_str = ''adder_template_'' @ strftime_str @ ''.v''"

definition save_adder_file ::
  "filesystem \<Rightarrow> string option \<Rightarrow> string \<Rightarrow> int \<Rightarrow> py_error + (string \<times> filesystem)" where
  "save_adder_file fs verilog_file_name strftime_str input_bit =
     (case verilog_file_name of
        None \<Rightarrow> Inl TypeError
      | Some name \<Rightarrow>
          let source_path =
                os_path_join (os_path_join BASE_DIR ''run_verilog_mult_add_mid'') name;
              dest_dir = os_path_join BASE_DIR ''adder_template'';
              template_adder_name = adder_template_name strftime_str;
              dest_path = os_path_join dest_dir template_adder_name
          in if fs source_path = None then Inl (FileNotFoundError source_path)
             else let fs1 = fs(dest_path \<mapsto> [])
                  in (case fs1 source_path of
                        None \<Rightarrow> Inl (FileNotFoundError source_path)
                      | Some lines \<Rightarrow>
                          Inr (template_adder_name,
                               fs1(dest_path \<mapsto> adder_copy input_bit lines (0, False)))))"


section \<open>The main loop\<close>

text \<open>
  The state of \<^verbatim>\<open>main\<close>: the file system, the texts written to the run log \<^verbatim>\<open>flog\<close>
  (one entry for each \<^verbatim>\<open>flog.write\<close>, in order), the commands of the jobs started so
  far, the number of clock readings written so far, and the two local variables that
  live across iterations, \<^verbatim>\<open>template_adder_name\<close> (unbound at first) and \<^verbatim>\<open>i\<close>.
\<close>

record state =
  st_fs :: filesystem
  st_flog :: "string list"
  st_jobs :: "string list list"
  st_ticks :: nat
  st_template_adder_name :: "string option"
  st_i :: nat

text \<open>How one pass through the loop body ends.\<close>

datatype flow = Continue state | Break state | Raise py_error state

definition each_iter_ppo :: int where "each_iter_ppo = 900"
definition each_iter_mcts :: int where "each_iter_mcts = 100"
definition total_times :: nat where "total_times = 3"

definition log_write :: "string \<Rightarrow> state \<Rightarrow> state" where
  "log_write text s = s\<lparr>st_flog := st_flog s @ [text]\<rparr>"

text \<open>The elapsed time is read from the clock at each use.\<close>

definition read_elapsed :: "world \<Rightarrow> state \<Rightarrow> string \<times> state" where
  "read_elapsed W s = (elapsed_2f W (st_ticks s), s\<lparr>st_ticks := st_ticks s + 1\<rparr>)"

definition capture_subprocess_output ::
  "world \<Rightarrow> string list \<Rightarrow> state \<Rightarrow> (bool \<times> string) \<times> state" where
  "capture_subprocess_output W subprocess_args s =
     (case run_job W subprocess_args (st_fs s) of
        (r, fs') \<Rightarrow> (r, s\<lparr>st_fs := fs', st_jobs := st_jobs s @ [subprocess_args]\<rparr>))"

text \<open>\<^verbatim>\<open>f"{data_line}"\<close> for a value that is a string or \<^verbatim>\<open>None\<close>.\<close>

definition str_opt :: "string option \<Rightarrow> string" where
  "str_opt v = (case v of None \<Rightarrow> ''None'' | Some t \<Rightarrow> t)"

definition round_key :: "world \<Rightarrow> nat \<Rightarrow> string" where
  "round_key W i = timestamp W @ ''-'' @ str_int (int i)"

text \<open>
  The command of the stage-1 job. After the first iteration it reads the local
  \<^verbatim>\<open>template_adder_name\<close>, which is bound only once an iteration has run to its end.
\<close>

definition ppo_cmd :: "world \<Rightarrow> nat \<Rightarrow> string option \<Rightarrow> py_error + string list" where
  "ppo_cmd W i template_adder_name =
     (let cmd = [''python3'', os_path_join BASE_DIR ''PPO2_mult.py'',
                 ''--input_bit'', str_int (arg_input_bit W),
                 ''--max_iter'', str_int each_iter_ppo,
                 ''--strftime'', round_key W i]
      in if i > 0
         then (case template_adder_name of
                 None \<Rightarrow> Inl UnboundLocalError
               | Some t \<Rightarrow> Inr (cmd @ [''--template'', t]))
         else Inr cmd)"

definition mcts_cmd :: "world \<Rightarrow> nat \<Rightarrow> string \<Rightarrow> string list" where
  "mcts_cmd W i template_mult_name =
     (let cmd = [''python3'', os_path_join BASE_DIR ''MCTS_mult.py'',
                 ''--input_bit'', str_int (arg_input_bit W * 2),
                 ''--max_iter'', str_int each_iter_mcts,
                 ''--template'', template_mult_name,
                 ''--strftime'', round_key W i,
                 ''--area_w'', area_w_2f W]
      in if i > 0 then cmd @ [''--init_state''] else cmd)"

definition iteration_text :: "nat \<Rightarrow> string \<Rightarrow> string" where
  "iteration_text i elapsed =
     ''Iteration '' @ str_int (int i) @ '', Time elapsed: '' @ elapsed @ '' seconds'' @ [NL]"

definition job_error_text :: "string \<Rightarrow> nat \<Rightarrow> string \<Rightarrow> string" where
  "job_error_text script i output =
     ''[ERROR] '' @ script @ '' failed during iteration '' @ str_int (int i) @ ''.'' @ [NL]
       @ ''Output:'' @ [NL] @ output @ [NL]"

text \<open>
  The body of the \<^verbatim>\<open>for\<close> loop, entered with \<^verbatim>\<open>i\<close> bound by the loop. Only
  \<^verbatim>\<open>AssertionError\<close> is caught, around each of the two selections.
\<close>

definition body :: "world \<Rightarrow> state \<Rightarrow> flow" where
  "body W s0 =
     (let i = st_i s0;
          input_bit = arg_input_bit W;
          (elapsed, s1) = read_elapsed W s0;
          s2 = log_write (iteration_text i elapsed) s1
      in case ppo_cmd W i (st_template_adder_name s2) of
           Inl err \<Rightarrow> Raise err s2
         | Inr ppo_command \<Rightarrow>
        (case capture_subprocess_output W ppo_command s2 of
           ((success, ppo_output), s3) \<Rightarrow>
        if \<not> success
        then Break (log_write (job_error_text ''PPO2_mult.py'' i ppo_output) s3)
        else
        (case get_best_file_from_ppo W (st_fs s3) (round_key W i) input_bit of
           Inl (AssertionError e) \<Rightarrow> Break (log_write (e @ [NL]) s3)
         | Inl err \<Rightarrow> Raise err s3
         | Inr (verilog_file_name, data_line) \<Rightarrow>
        (let s4 = log_write (''PPO:'' @ [TAB] @ str_opt data_line @ [NL]) s3
         in case save_mult_file (st_fs s4) verilog_file_name (round_key W i) of
           Inl err \<Rightarrow> Raise err s4
         | Inr (template_mult_name, fs5) \<Rightarrow>
        (case capture_subprocess_output W (mcts_cmd W i template_mult_name)
                (s4\<lparr>st_fs := fs5\<rparr>) of
           ((success, mcts_output), s6) \<Rightarrow>
        if \<not> success
        then Break (log_write (job_error_text ''MCTS_mult.py'' i mcts_output) s6)
        else
        (case get_best_file_from_mcts W (st_fs s6) (round_key W i) (input_bit * 2) of
           Inl (AssertionError e) \<Rightarrow> Break (log_write (e @ [NL]) s6)
         | Inl err \<Rightarrow> Raise err s6
         | Inr (verilog_file_name, data_line) \<Rightarrow>
        (let s7 = log_write (''MCTS'' @ [TAB] @ str_opt data_line @ [NL]) s6
         in case save_adder_file (st_fs s7) verilog_file_name (round_key W i)
                   (input_bit * 2) of
           Inl err \<Rightarrow> Raise err s7
         | Inr (template_adder_name, fs8) \<Rightarrow>
             Continue (s7\<lparr>st_fs := fs8,
                          st_template_adder_name := Some template_adder_name,
                          st_i := i + 1\<rparr>))))))))"

text \<open>
  \<^verbatim>\<open>for i in range(total_times)\<close>: each iteration binds \<^verbatim>\<open>i\<close> to the next value of
  the range, whatever the body left in it.
\<close>

fun main_loop :: "world \<Rightarrow> nat list \<Rightarrow> state \<Rightarrow> flow" where
  "main_loop W [] s = Continue s"
| "main_loop W (k # ks) s =
     (case body W (s\<lparr>st_i := k\<rparr>) of
        Continue s' \<Rightarrow> main_loop W ks s'
      | Break s' \<Rightarrow> Break s'
      | Raise err s' \<Rightarrow> Raise err s')"

text \<open>
  How \<^verbatim>\<open>main\<close> ends: the loop ran through the range, it was left by \<^verbatim>\<open>break\<close>, or
  an exception that nothing catches ended the process.
\<close>

datatype ending = LoopExhausted | LoopBroken | Uncaught py_error

definition final_time :: "world \<Rightarrow> state \<Rightarrow> state" where
  "final_time W s =
     (case read_elapsed W s of
        (total_time, s') \<Rightarrow>
          log_write (''Total Time Elapsed: '' @ total_time @ '' seconds'' @ [NL]) s')"

definition initial_state :: "filesystem \<Rightarrow> state" where
  "initial_state files =
     \<lparr>st_fs = files, st_flog = [], st_jobs = [], st_ticks = 0,
      st_template_adder_name = None, st_i = 0\<rparr>"

definition main :: "world \<Rightarrow> filesystem \<Rightarrow> ending \<times> state" where
  "main W files =
     (case main_loop W [0..<total_times] (initial_state files) of
        Continue s \<Rightarrow> (LoopExhausted, final_time W s)
      | Break s \<Rightarrow> (LoopBroken, final_time W s)
      | Raise err s \<Rightarrow> (Uncaught err, s))"


section \<open>Notions of the specification\<close>

subsection \<open>Records of a result log\<close>

text \<open>
  The fields of a record: the line, trimmed, split at tabs. A record is well formed when
  it has at least five fields and \<^verbatim>\<open>float\<close> accepts the second to the fifth; its score
  is \<open>m1 + m2 * weight + m3 + m4 * weight\<close>, and its identifier the first field.
\<close>

definition record_fields :: "string \<Rightarrow> string list" where
  "record_fields line = split_on TAB (strip line)"

definition well_formed :: "world \<Rightarrow> string \<Rightarrow> bool" where
  "well_formed W line =
     (5 \<le> length (record_fields line)
      \<and> py_float W (record_fields line ! 1) \<noteq> None
      \<and> py_float W (record_fields line ! 2) \<noteq> None
      \<and> py_float W (record_fields line ! 3) \<noteq> None
      \<and> py_float W (record_fields line ! 4) \<noteq> None)"

definition metric :: "world \<Rightarrow> string \<Rightarrow> nat \<Rightarrow> pyfloat" where
  "metric W line k = (case py_float W (record_fields line ! k) of None \<Rightarrow> NaN | Some v \<Rightarrow> v)"

definition record_score :: "world \<Rightarrow> string \<Rightarrow> pyfloat" where
  "record_score W line =
     float_add (rnd W)
       (float_add (rnd W)
          (float_add (rnd W) (metric W line 1)
             (float_mul (rnd W) (metric W line 2) (area_w W)))
          (metric W line 3))
       (float_mul (rnd W) (metric W line 4) (area_w W))"

definition record_id :: "string \<Rightarrow> string" where
  "record_id line = (case record_fields line of [] \<Rightarrow> [] | p # _ \<Rightarrow> p)"

text \<open>
  Record \<open>i\<close> of a log is its earliest minimum: its score is below plus infinity, no
  record of the log has a smaller score, and no earlier record has the same score.
\<close>

definition earliest_minimum :: "world \<Rightarrow> string list \<Rightarrow> nat \<Rightarrow> bool" where
  "earliest_minimum W ls i =
     (i < length ls
      \<and> float_lt (record_score W (ls ! i)) PInf
      \<and> list_all (\<lambda>l. \<not> float_lt (record_score W l) (record_score W (ls ! i))) ls
      \<and> list_all (\<lambda>l. record_score W l \<noteq> record_score W (ls ! i)) (take i ls))"

subsection \<open>The lines an adder template keeps\<close>

text \<open>
  A comment line starts with \<open>//\<close>; it qualifies when it does not contain the character
  \<open>2\<close>. Line \<open>n\<close> of the source is kept when it is a qualifying comment line with fewer
  than \<open>bit_width\<close> qualifying comment lines before it, or when it is not a comment line
  and a line starting with the marker stands at or before it.
\<close>

definition is_comment :: "string \<Rightarrow> bool" where
  "is_comment line = startswith line ''//''"

definition qualifying :: "string \<Rightarrow> bool" where
  "qualifying line = (is_comment line \<and> CHR ''2'' \<notin> set line)"

definition is_marker :: "string \<Rightarrow> bool" where
  "is_marker line = startswith line adder_marker"

definition adder_keeps :: "int \<Rightarrow> string list \<Rightarrow> nat \<Rightarrow> bool" where
  "adder_keeps bit_width ls n =
     (if is_comment (ls ! n)
      then qualifying (ls ! n) \<and> int (length (filter qualifying (take n ls))) < bit_width
      else list_ex is_marker (take (Suc n) ls))"

definition adder_selection :: "int \<Rightarrow> string list \<Rightarrow> string list" where
  "adder_selection bit_width ls =
     map (\<lambda>n. ls ! n) (filter (adder_keeps bit_width ls) [0..<length ls])"

subsection \<open>The files of a template extraction\<close>

text \<open>The paths that \<^verbatim>\<open>save_mult_file\<close> and \<^verbatim>\<open>save_adder_file\<close> read and write.\<close>

definition mult_source_path :: "string \<Rightarrow> string" where
  "mult_source_path name = os_path_join (os_path_join BASE_DIR ''run_verilog_mult_mid'') name"

definition mult_dest_path :: "string \<Rightarrow> string" where
  "mult_dest_path strftime_str =
     os_path_join (os_path_join BASE_DIR ''multiplier_template'')
       (mult_template_name strftime_str)"

definition adder_source_path :: "string \<Rightarrow> string" where
  "adder_source_path name =
     os_path_join (os_path_join BASE_DIR ''run_verilog_mult_add_mid'') name"

definition adder_dest_path :: "string \<Rightarrow> string" where
  "adder_dest_path strftime_str =
     os_path_join (os_path_join BASE_DIR ''adder_template'')
       (adder_template_name strftime_str)"

text \<open>The content of a file once an extraction has returned, if it has.\<close>

definition file_after :: "py_error + (string \<times> filesystem) \<Rightarrow> string \<Rightarrow> string list option" where
  "file_after r path = (case r of Inl _ \<Rightarrow> None | Inr (_, files) \<Rightarrow> files path)"

text \<open>A line that is the marker exactly, apart from the white space around it.\<close>

definition is_exact_marker :: "string \<Rightarrow> bool" where
  "is_exact_marker line = (strip line = adder_marker)"

subsection \<open>Rounds of the controller\<close>


definition round_started :: "world \<Rightarrow> state \<Rightarrow> state" where
  "round_started W s =
     log_write (iteration_text (st_i s) (elapsed_2f W (st_ticks s)))
       (s\<lparr>st_ticks := st_ticks s + 1\<rparr>)"

text \<open>
  The commands of round \<open>k\<close> with consecutive round keys: stage 1 is given the key of round
  \<open>k\<close> and, after the first round, the adder template of round \<open>k - 1\<close>; stage 2 is
  given the key and the multiplier template of round \<open>k\<close>.
\<close>

definition stage1_command :: "world \<Rightarrow> nat \<Rightarrow> string list" where
  "stage1_command W k =
     [''python3'', os_path_join BASE_DIR ''PPO2_mult.py'',
      ''--input_bit'', str_int (arg_input_bit W),
      ''--max_iter'', ''900'',
      ''--strftime'', round_key W k]
     @ (if k = 0 then [] else [''--template'', adder_template_name (round_key W (k - 1))])"

definition stage2_command :: "world \<Rightarrow> nat \<Rightarrow> string list" where
  "stage2_command W k =
     [''python3'', os_path_join BASE_DIR ''MCTS_mult.py'',
      ''--input_bit'', str_int (arg_input_bit W * 2),
      ''--max_iter'', ''100'',
      ''--template'', mult_template_name (round_key W k),
      ''--strftime'', round_key W k,
      ''--area_w'', area_w_2f W]
     @ (if k = 0 then [] else [''--init_state''])"

definition total_time_text :: "string \<Rightarrow> string" where
  "total_time_text elapsed = ''Total Time Elapsed: '' @ elapsed @ '' seconds'' @ [NL]"

definition not_found_text :: "string \<Rightarrow> string" where
  "not_found_text log_path = ''[ERROR] '' @ log_path @ '' does not exist.''"

section \<open>A concrete run\<close>

text \<open>
  The part of \<^verbatim>\<open>float\<close> that the example logs use: an optional sign, then \<open>inf\<close>,
  \<open>nan\<close>, or decimal digits with an optional exponent (\<open>e\<close> and decimal digits). Any
  other text is taken as rejected. The rounding of the examples keeps a finite result as
  it is and lets a result beyond the range of a double overflow; the examples compute
  with small integers, which a double holds exactly, and with a sum that overflows.
\<close>

fun decimal_value :: "string \<Rightarrow> nat \<Rightarrow> nat option" where
  "decimal_value [] acc = Some acc"
| "decimal_value (c # cs) acc =
     (if 48 \<le> (of_char c :: nat) \<and> (of_char c :: nat) \<le> 57
      then decimal_value cs (10 * acc + (of_char c - 48))
      else None)"

definition digits_value :: "string \<Rightarrow> nat option" where
  "digits_value s = (if s = [] then None else decimal_value s 0)"

definition unsigned_literal :: "string \<Rightarrow> pyfloat option" where
  "unsigned_literal s =
     (if s = ''inf'' then Some PInf
      else if s = ''nan'' then Some NaN
      else (case split_on CHR ''e'' s of
              [m] \<Rightarrow> map_option (\<lambda>n. Fin (of_nat n)) (digits_value m)
            | [m, x] \<Rightarrow>
                (case (digits_value m, digits_value x) of
                   (Some a, Some b) \<Rightarrow> Some (Fin (of_nat (a * 10 ^ b)))
                 | _ \<Rightarrow> None)
            | _ \<Rightarrow> None))"

definition square :: "rat \<Rightarrow> rat" where
  "square r = r * r"

text \<open>The tenth iterated square of two, \<open>2 ^ 1024\<close>: the first power of two out of range.\<close>

definition out_of_range :: rat where
  "out_of_range =
     square (square (square (square (square (square (square (square (square (square 2)))))))))"

definition round_in_range :: "rat \<Rightarrow> pyfloat" where
  "round_in_range r =
     (if out_of_range \<le> r then PInf
      else if r \<le> - out_of_range then NInf
      else Fin r)"

fun float_of_literal :: "string \<Rightarrow> pyfloat option" where
  "float_of_literal [] = None"
| "float_of_literal (c # cs) =
     (if c = CHR ''-'' then map_option float_neg (unsigned_literal cs)
      else if c = CHR ''+'' then unsigned_literal cs
      else unsigned_literal (c # cs))"

text \<open>A record of a log: fields joined by tabs, ended by a newline.\<close>

fun log_line :: "string list \<Rightarrow> string" where
  "log_line [] = [NL]"
| "log_line [f] = f @ [NL]"
| "log_line (f # g # fs) = f @ [TAB] @ log_line (g # fs)"

definition example_world :: world where
  "example_world =
     \<lparr>py_float = float_of_literal, rnd = round_in_range, area_w = Fin 2, area_w_2f = ''2.00'',
      arg_input_bit = 16, timestamp = ''T'', elapsed_2f = (\<lambda>n. ''0.00''),
      run_job = (\<lambda>cmd files. ((True, []), files))\<rparr>"

definition failing_world :: world where
  "failing_world =
     example_world\<lparr>run_job := (\<lambda>cmd files. ((False, ''boom'' @ [NL]), files))\<rparr>"

definition tie_log :: "string list" where
  "tie_log =
     [log_line [''a.v'', ''3'', ''1'', ''1'', ''1''],
      log_line [''b.v'', ''1'', ''1'', ''1'', ''1''],
      log_line [''c.v'', ''2'', ''0'', ''2'', ''1'']]"

definition inf_record :: string where
  "inf_record = log_line [''a.v'', ''inf'', ''0'', ''0'', ''0'']"

definition inf_log :: "string list" where
  "inf_log = [inf_record]"

definition overflow_record :: string where
  "overflow_record = log_line [''a.v'', ''1e308'', ''0'', ''1e308'', ''0'']"

definition overflow_log :: "string list" where
  "overflow_log = [overflow_record]"

definition short_log :: "string list" where
  "short_log = [log_line [''a.v'', ''1'', ''1'', ''1'']]"

definition mult_source :: "string list" where
  "mult_source =
     [''module mult(a,b,p);'' @ [NL],
      ''endmodule'' @ [NL],
      ''module adder(a,b,s); // sum'' @ [NL],
      ''endmodule'' @ [NL]]"

definition adder_source :: "string list" where
  "adder_source =
     [''// in a'' @ [NL],
      ''module mult(a,b,p);'' @ [NL],
      ''// width 32'' @ [NL],
      ''// in b'' @ [NL],
      ''// out s'' @ [NL],
      ''module adder(a,b,s);'' @ [NL],
      ''// body'' @ [NL],
      ''endmodule'' @ [NL]]"

text \<open>
  A file system in which the logs and the winning files of three rounds are in place
  (the jobs of \<open>example_world\<close> leave the files as they are).
\<close>

definition example_files :: filesystem where
  "example_files =
     [ppo_log_path ''T-0'' 16 \<mapsto> tie_log,
      ppo_log_path ''T-1'' 16 \<mapsto> tie_log,
      ppo_log_path ''T-2'' 16 \<mapsto> tie_log,
      mcts_log_path ''T-0'' 32 \<mapsto> tie_log,
      mcts_log_path ''T-1'' 32 \<mapsto> tie_log,
      mcts_log_path ''T-2'' 32 \<mapsto> tie_log,
      ''/content/ArithmeticTree/run_verilog_mult_mid/b.v'' \<mapsto> mult_source,
      ''/content/ArithmeticTree/run_verilog_mult_add_mid/b.v'' \<mapsto> adder_source]"


text \<open>
  The example world with results kept as they are: the run of three rounds computes with
  small integers only, which a double holds exactly. The state in which that run ends.
\<close>

definition exact_world :: world where
  "exact_world = example_world\<lparr>rnd := Fin\<rparr>"

definition example_end :: state where
  "example_end = snd (main exact_world example_files)"


text \<open>A file system in which the destination of an adder template holds the source.\<close>

definition aliased_files :: filesystem where
  "aliased_files = [adder_dest_path ''T-0'' \<mapsto> adder_source]"

text \<open>File systems without any log, with empty logs, and with a log of one short record.\<close>

definition files_without_logs :: filesystem where
  "files_without_logs = [mult_source_path ''b.v'' \<mapsto> mult_source]"

definition files_with_empty_logs :: filesystem where
  "files_with_empty_logs =
     [ppo_log_path ''T-0'' 16 \<mapsto> [], mcts_log_path ''T-0'' 16 \<mapsto> []]"

definition files_with_short_log :: filesystem where
  "files_with_short_log = [ppo_log_path ''T-0'' 16 \<mapsto> short_log]"

section \<open>The order of floats\<close>

lemma float_lt_irrefl: "\<not> float_lt x x"
  by (cases x) simp_all

lemma float_lt_trans: "float_lt x y \<Longrightarrow> float_lt y z \<Longrightarrow> float_lt x z"
  by (cases x; cases y; cases z) simp_all

section \<open>The two selectors\<close>

lemma mcts_loop_eq_ppo_loop: "mcts_loop W ls acc = ppo_loop W ls acc"
proof (induction ls arbitrary: acc)
  case Nil
  show ?case by (cases acc) simp
next
  case (Cons l ls)
  obtain b f d where acc: "acc = (b, f, d)" by (cases acc) auto
  show ?case
    unfolding acc by (simp add: Cons.IH Let_def cong: if_cong)
qed

lemma float_item_wf:
  assumes "k < length parts" and "py_float W (parts ! k) \<noteq> None"
  shows "float_item W parts k = Inr (case py_float W (parts ! k) of None \<Rightarrow> NaN | Some v \<Rightarrow> v)"
  using assms by (auto simp: float_item_def item_def ebind_def)

lemma ppo_loop_Cons_wf:
  assumes "well_formed W l"
  shows "ppo_loop W (l # ls) (b, f, d) =
           (if float_lt (record_score W l) b
            then ppo_loop W ls (record_score W l, Some (record_id l), Some (strip l))
            else ppo_loop W ls (b, f, d))"
proof -
  have len: "5 \<le> length (record_fields l)" using assms by (simp add: well_formed_def)
  have i0: "item (record_fields l) 0 = Inr (record_id l)"
    using len by (cases "record_fields l") (simp_all add: item_def record_id_def)
  have f1: "float_item W (record_fields l) 1 = Inr (metric W l 1)"
    unfolding metric_def using assms len by (intro float_item_wf) (simp_all add: well_formed_def)
  have f2: "float_item W (record_fields l) 2 = Inr (metric W l 2)"
    unfolding metric_def using assms len by (intro float_item_wf) (simp_all add: well_formed_def)
  have f3: "float_item W (record_fields l) 3 = Inr (metric W l 3)"
    unfolding metric_def using assms len by (intro float_item_wf) (simp_all add: well_formed_def)
  have f4: "float_item W (record_fields l) 4 = Inr (metric W l 4)"
    unfolding metric_def using assms len by (intro float_item_wf) (simp_all add: well_formed_def)
  show ?thesis
    using i0 f1 f2 f3 f4
    by (simp add: Let_def record_fields_def[symmetric] ebind_def record_score_def)
qed

lemma ppo_loop_best:
  assumes "list_all (well_formed W) ls"
  shows "if list_ex (\<lambda>l. float_lt (record_score W l) b) ls
         then \<exists>i. earliest_minimum W ls i \<and> float_lt (record_score W (ls ! i)) b
                \<and> ppo_loop W ls (b, f, d) = Inr (Some (record_id (ls ! i)), Some (strip (ls ! i)))
         else ppo_loop W ls (b, f, d) = Inr (f, d)"
  using assms
proof (induction ls arbitrary: b f d)
  case Nil
  show ?case by simp
next
  case (Cons x xs)
  let ?s = "record_score W x"
  let ?below = "\<lambda>c. list_ex (\<lambda>l. float_lt (record_score W l) c)"
  have wfx: "well_formed W x" and wfxs: "list_all (well_formed W) xs"
    using Cons.prems by simp_all
  show ?case
  proof (cases "float_lt ?s b")
    case True
    have step: "ppo_loop W (x # xs) (b, f, d) = ppo_loop W xs (?s, Some (record_id x), Some (strip x))"
      using ppo_loop_Cons_wf[OF wfx] True by simp
    have sfin: "float_lt ?s PInf" using True by (cases ?s; cases b) simp_all
    have ex0: "?below b (x # xs)" using True by simp
    note IH = Cons.IH[OF wfxs, of ?s "Some (record_id x)" "Some (strip x)"]
    have "\<exists>k. earliest_minimum W (x # xs) k \<and> float_lt (record_score W ((x # xs) ! k)) b
            \<and> ppo_loop W (x # xs) (b, f, d) = Inr (Some (record_id ((x # xs) ! k)), Some (strip ((x # xs) ! k)))"
    proof (cases "?below ?s xs")
      case ex: True
      from IH have "\<exists>i. earliest_minimum W xs i \<and> float_lt (record_score W (xs ! i)) ?s
         \<and> ppo_loop W xs (?s, Some (record_id x), Some (strip x)) = Inr (Some (record_id (xs ! i)), Some (strip (xs ! i)))"
        unfolding if_P[OF ex] .
      then obtain i where i1: "earliest_minimum W xs i" and i2: "float_lt (record_score W (xs ! i)) ?s"
        and i3: "ppo_loop W xs (?s, Some (record_id x), Some (strip x)) = Inr (Some (record_id (xs ! i)), Some (strip (xs ! i)))"
        by blast
      have n1: "\<not> float_lt ?s (record_score W (xs ! i))"
        using i2 float_lt_trans float_lt_irrefl by blast
      have n2: "?s \<noteq> record_score W (xs ! i)"
        using i2 float_lt_irrefl by auto
      have e: "earliest_minimum W (x # xs) (Suc i)"
        using i1 n1 n2 by (simp add: earliest_minimum_def)
      have l: "float_lt (record_score W ((x # xs) ! Suc i)) b"
        using i2 True float_lt_trans by auto
      show ?thesis
        by (rule exI[of _ "Suc i"]) (use e l step i3 in simp)
    next
      case nex: False
      from IH have r: "ppo_loop W xs (?s, Some (record_id x), Some (strip x)) = Inr (Some (record_id x), Some (strip x))"
        unfolding if_not_P[OF nex] .
      have a: "list_all (\<lambda>l. \<not> float_lt (record_score W l) ?s) xs"
        using nex by (simp add: list_ex_iff list_all_iff)
      have e: "earliest_minimum W (x # xs) 0"
        using a sfin float_lt_irrefl[of ?s] by (simp add: earliest_minimum_def)
      show ?thesis
        by (rule exI[of _ 0]) (use e True step r in simp)
    qed
    then show ?thesis unfolding if_P[OF ex0] .
  next
    case False
    have step: "ppo_loop W (x # xs) (b, f, d) = ppo_loop W xs (b, f, d)"
      using ppo_loop_Cons_wf[OF wfx] False by simp
    note IH = Cons.IH[OF wfxs, of b f d]
    show ?thesis
    proof (cases "?below b xs")
      case ex: True
      then have ex0: "?below b (x # xs)" by simp
      from IH have "\<exists>i. earliest_minimum W xs i \<and> float_lt (record_score W (xs ! i)) b
         \<and> ppo_loop W xs (b, f, d) = Inr (Some (record_id (xs ! i)), Some (strip (xs ! i)))"
        unfolding if_P[OF ex] .
      then obtain i where i1: "earliest_minimum W xs i" and i2: "float_lt (record_score W (xs ! i)) b"
        and i3: "ppo_loop W xs (b, f, d) = Inr (Some (record_id (xs ! i)), Some (strip (xs ! i)))"
        by blast
      have n1: "\<not> float_lt ?s (record_score W (xs ! i))"
        using i2 False float_lt_trans by blast
      have n2: "?s \<noteq> record_score W (xs ! i)"
        using i2 False by auto
      have e: "earliest_minimum W (x # xs) (Suc i)"
        using i1 n1 n2 by (simp add: earliest_minimum_def)
      have "\<exists>k. earliest_minimum W (x # xs) k \<and> float_lt (record_score W ((x # xs) ! k)) b
            \<and> ppo_loop W (x # xs) (b, f, d) = Inr (Some (record_id ((x # xs) ! k)), Some (strip ((x # xs) ! k)))"
        by (rule exI[of _ "Suc i"]) (use e i2 step i3 in simp)
      then show ?thesis unfolding if_P[OF ex0] .
    next
      case nex: False
      then have nex0: "\<not> ?below b (x # xs)" using False by simp
      from IH have "ppo_loop W xs (b, f, d) = Inr (f, d)"
        unfolding if_not_P[OF nex] .
      then have "ppo_loop W (x # xs) (b, f, d) = Inr (f, d)" using step by simp
      then show ?thesis unfolding if_not_P[OF nex0] .
    qed
  qed
qed


text \<open>
  C1 (amended). On a present log whose records are all well formed, both selectors return
  the identifier and the trimmed line of the earliest minimum of the log, whenever some
  record scores below plus infinity; a record whose score is not a number is never
  selected. When no record scores below plus infinity, they return \<^verbatim>\<open>(None, None)\<close>.
\<close>

theorem select_best_earliest_minimum:
  assumes wf: "list_all (well_formed W) ls"
    and p: "fs_p (ppo_log_path key_p bit_p) = Some ls"
    and m: "fs_m (mcts_log_path key_m bit_m) = Some ls"
  shows "if list_ex (\<lambda>l. float_lt (record_score W l) PInf) ls
         then \<exists>i. earliest_minimum W ls i
                \<and> get_best_file_from_ppo W fs_p key_p bit_p
                    = Inr (Some (record_id (ls ! i)), Some (strip (ls ! i)))
                \<and> get_best_file_from_mcts W fs_m key_m bit_m
                    = Inr (Some (record_id (ls ! i)), Some (strip (ls ! i)))
         else get_best_file_from_ppo W fs_p key_p bit_p = Inr (None, None)
              \<and> get_best_file_from_mcts W fs_m key_m bit_m = Inr (None, None)"
proof -
  have gp: "get_best_file_from_ppo W fs_p key_p bit_p = ppo_loop W ls (PInf, None, None)"
    using p by (simp add: get_best_file_from_ppo_def)
  have gm: "get_best_file_from_mcts W fs_m key_m bit_m = ppo_loop W ls (PInf, None, None)"
    using m by (simp add: get_best_file_from_mcts_def mcts_loop_eq_ppo_loop)
  show ?thesis
  proof (cases "list_ex (\<lambda>l. float_lt (record_score W l) PInf) ls")
    case True
    from ppo_loop_best [OF wf, of PInf None None]
    have "\<exists>i. earliest_minimum W ls i \<and> float_lt (record_score W (ls ! i)) PInf
            \<and> ppo_loop W ls (PInf, None, None)
                = Inr (Some (record_id (ls ! i)), Some (strip (ls ! i)))"
      unfolding if_P [OF True] .
    then have "\<exists>i. earliest_minimum W ls i
                \<and> get_best_file_from_ppo W fs_p key_p bit_p
                    = Inr (Some (record_id (ls ! i)), Some (strip (ls ! i)))
                \<and> get_best_file_from_mcts W fs_m key_m bit_m
                    = Inr (Some (record_id (ls ! i)), Some (strip (ls ! i)))"
      unfolding gp gm by blast
    then show ?thesis unfolding if_P [OF True] .
  next
    case False
    from ppo_loop_best [OF wf, of PInf None None]
    have "ppo_loop W ls (PInf, None, None) = Inr (None, None)"
      unfolding if_not_P [OF False] .
    then have "get_best_file_from_ppo W fs_p key_p bit_p = Inr (None, None)
              \<and> get_best_file_from_mcts W fs_m key_m bit_m = Inr (None, None)"
      unfolding gp gm by simp
    then show ?thesis unfolding if_not_P [OF False] .
  qed
qed

theorem select_best_earliest_minimum_witness:
  "list_all (well_formed example_world) tie_log
   \<and> example_files (ppo_log_path ''T-0'' 16) = Some tie_log
   \<and> example_files (mcts_log_path ''T-0'' 32) = Some tie_log
   \<and> (\<exists>i. earliest_minimum example_world tie_log i
         \<and> get_best_file_from_ppo example_world example_files ''T-0'' 16
             = Inr (Some (record_id (tie_log ! i)), Some (strip (tie_log ! i)))
         \<and> get_best_file_from_mcts example_world example_files ''T-0'' 32
             = Inr (Some (record_id (tie_log ! i)), Some (strip (tie_log ! i))))"
proof -
  have wf: "list_all (well_formed example_world) tie_log"
    by code_simp
  have p: "example_files (ppo_log_path ''T-0'' 16) = Some tie_log"
    by code_simp
  have m: "example_files (mcts_log_path ''T-0'' 32) = Some tie_log"
    by code_simp
  have ex: "list_ex (\<lambda>l. float_lt (record_score example_world l) PInf) tie_log"
    by code_simp
  from select_best_earliest_minimum
         [where W = example_world and ls = tie_log and fs_p = example_files
            and fs_m = example_files, OF wf p m]
  have "\<exists>i. earliest_minimum example_world tie_log i
         \<and> get_best_file_from_ppo example_world example_files ''T-0'' 16
             = Inr (Some (record_id (tie_log ! i)), Some (strip (tie_log ! i)))
         \<and> get_best_file_from_mcts example_world example_files ''T-0'' 32
             = Inr (Some (record_id (tie_log ! i)), Some (strip (tie_log ! i)))"
    unfolding if_P [OF ex] .
  with wf p m show ?thesis by blast
qed

text \<open>The overflow example, computed step by step.\<close>

lemma overflow_fields:
  "record_fields overflow_record = [''a.v'', ''1e308'', ''0'', ''1e308'', ''0'']"
  by code_simp

lemma literal_1e308: "float_of_literal ''1e308'' = Some (Fin (10 ^ 308))"
  by (simp add: unsigned_literal_def digits_value_def)

lemma literal_0: "float_of_literal ''0'' = Some (Fin 0)"
  by (simp add: unsigned_literal_def digits_value_def)

lemma overflow_well_formed: "well_formed example_world overflow_record"
  by (simp add: well_formed_def overflow_fields example_world_def literal_1e308 literal_0
        del: float_of_literal.simps)

lemma overflow_score: "record_score example_world overflow_record = PInf"
  by (simp add: record_score_def metric_def overflow_fields example_world_def
        literal_1e308 literal_0 round_in_range_def out_of_range_def square_def
        del: float_of_literal.simps)

lemma overflow_result:
  "ppo_loop example_world overflow_log (PInf, None, None) = Inr (None, None)"
  unfolding overflow_log_def
  by (subst ppo_loop_Cons_wf [OF overflow_well_formed]) (simp add: overflow_score)

text \<open>
  The claim as it stands fails on a log whose only record has the metrics \<open>1e308\<close>, \<open>0\<close>,
  \<open>1e308\<close>, \<open>0\<close>: the record is well formed, its score overflows to plus infinity, which
  is not below the initial best score, and no record is returned. The same happens on a
  record with the metric \<open>inf\<close>, which \<^verbatim>\<open>float\<close> accepts.
\<close>

theorem select_best_counterexample:
  "well_formed example_world overflow_record
   \<and> get_best_file_from_ppo example_world [ppo_log_path ''T-0'' 16 \<mapsto> overflow_log] ''T-0'' 16
      = Inr (None, None)
   \<and> get_best_file_from_mcts example_world [mcts_log_path ''T-0'' 32 \<mapsto> overflow_log] ''T-0'' 32
      = Inr (None, None)
   \<and> well_formed example_world inf_record
   \<and> get_best_file_from_ppo example_world [ppo_log_path ''T-0'' 16 \<mapsto> inf_log] ''T-0'' 16
      = Inr (None, None)
   \<and> get_best_file_from_mcts example_world [mcts_log_path ''T-0'' 32 \<mapsto> inf_log] ''T-0'' 32
      = Inr (None, None)"
proof -
  have o2: "get_best_file_from_ppo example_world
              [ppo_log_path ''T-0'' 16 \<mapsto> overflow_log] ''T-0'' 16 = Inr (None, None)"
    using overflow_result by (simp add: get_best_file_from_ppo_def)
  have o3: "get_best_file_from_mcts example_world
              [mcts_log_path ''T-0'' 32 \<mapsto> overflow_log] ''T-0'' 32 = Inr (None, None)"
    using overflow_result by (simp add: get_best_file_from_mcts_def mcts_loop_eq_ppo_loop)
  have i1: "well_formed example_world inf_record"
    by code_simp
  have i2: "get_best_file_from_ppo example_world
              [ppo_log_path ''T-0'' 16 \<mapsto> inf_log] ''T-0'' 16 = Inr (None, None)"
    by code_simp
  have i3: "get_best_file_from_mcts example_world
              [mcts_log_path ''T-0'' 32 \<mapsto> inf_log] ''T-0'' 32 = Inr (None, None)"
    by code_simp
  from overflow_well_formed o2 o3 i1 i2 i3 show ?thesis by blast
qed

text \<open>
  C10. The two selectors are the same function of the log's content: on two logs with
  the same lines, whatever their paths, keys and bit widths, they return the same result,
  be it a pair of identifier and record or an exception.
\<close>

theorem selectors_equivalent:
  assumes "fs_p (ppo_log_path key_p bit_p) = Some ls"
    and "fs_m (mcts_log_path key_m bit_m) = Some ls"
  shows "get_best_file_from_ppo W fs_p key_p bit_p = get_best_file_from_mcts W fs_m key_m bit_m"
  using assms
  by (simp add: get_best_file_from_ppo_def get_best_file_from_mcts_def mcts_loop_eq_ppo_loop)

theorem selectors_equivalent_witness:
  "example_files (ppo_log_path ''T-0'' 16) = Some tie_log
   \<and> example_files (mcts_log_path ''T-1'' 32) = Some tie_log
   \<and> get_best_file_from_ppo example_world example_files ''T-0'' 16
       = get_best_file_from_mcts example_world example_files ''T-1'' 32"
proof -
  have p: "example_files (ppo_log_path ''T-0'' 16) = Some tie_log"
    by code_simp
  have m: "example_files (mcts_log_path ''T-1'' 32) = Some tie_log"
    by code_simp
  have "get_best_file_from_ppo example_world example_files ''T-0'' 16
          = get_best_file_from_mcts example_world example_files ''T-1'' 32"
    using p m
    by (rule selectors_equivalent
          [where fs_p = example_files and fs_m = example_files and ls = tie_log])
  with p m show ?thesis by simp
qed

section \<open>The templates\<close>

lemma mult_copy_takeWhile:
  "mult_copy ls = takeWhile (\<lambda>l. \<not> is_marker l) ls"
  by (induction ls) (simp_all add: is_marker_def)

lemma save_mult_file_writes:
  assumes "fs (mult_source_path name) = Some ls"
    and "mult_source_path name \<noteq> mult_dest_path key"
  shows "save_mult_file fs (Some name) key
           = Inr (mult_template_name key, fs(mult_dest_path key \<mapsto> mult_copy ls))"
  using assms
  by (simp add: save_mult_file_def Let_def mult_source_path_def mult_dest_path_def)

lemma save_adder_file_writes:
  assumes "fs (adder_source_path name) = Some ls"
    and "adder_source_path name \<noteq> adder_dest_path key"
  shows "save_adder_file fs (Some name) key bw
           = Inr (adder_template_name key,
                  fs(adder_dest_path key \<mapsto> adder_copy bw ls (0, False)))"
  using assms
  by (simp add: save_adder_file_def Let_def adder_source_path_def adder_dest_path_def)

text \<open>
  C3 (amended). On a readable source file that is not the destination itself,
  \<^verbatim>\<open>save_mult_file\<close> writes the lines of the source, in order and unchanged, up to but
  not including the first line that starts with the marker \<open>module adder(a,b,s);\<close>; when
  no line starts with the marker, it writes the whole file.
\<close>

theorem save_mult_file_prefix:
  assumes "fs (mult_source_path name) = Some ls"
    and "mult_source_path name \<noteq> mult_dest_path key"
  shows "save_mult_file fs (Some name) key
           = Inr (mult_template_name key,
                  fs(mult_dest_path key \<mapsto> takeWhile (\<lambda>l. \<not> is_marker l) ls))
         \<and> (list_all (\<lambda>l. \<not> is_marker l) ls \<longrightarrow>
              save_mult_file fs (Some name) key
                = Inr (mult_template_name key, fs(mult_dest_path key \<mapsto> ls)))"
proof -
  have w: "save_mult_file fs (Some name) key
           = Inr (mult_template_name key,
                  fs(mult_dest_path key \<mapsto> takeWhile (\<lambda>l. \<not> is_marker l) ls))"
    using save_mult_file_writes [where fs = fs, OF assms] by (simp add: mult_copy_takeWhile)
  have tw: "takeWhile (\<lambda>l. \<not> is_marker l) ls = ls" if "list_all (\<lambda>l. \<not> is_marker l) ls"
    using that by (simp add: list_all_iff)
  show ?thesis
  proof (intro conjI impI)
    show "save_mult_file fs (Some name) key
           = Inr (mult_template_name key,
                  fs(mult_dest_path key \<mapsto> takeWhile (\<lambda>l. \<not> is_marker l) ls))"
      by (rule w)
  next
    assume a: "list_all (\<lambda>l. \<not> is_marker l) ls"
    from w tw [OF a]
    show "save_mult_file fs (Some name) key
            = Inr (mult_template_name key, fs(mult_dest_path key \<mapsto> ls))"
      by simp
  qed
qed

theorem save_mult_file_prefix_witness:
  "example_files (mult_source_path ''b.v'') = Some mult_source
   \<and> mult_source_path ''b.v'' \<noteq> mult_dest_path ''T-0''
   \<and> save_mult_file example_files (Some ''b.v'') ''T-0''
       = Inr (mult_template_name ''T-0'',
              example_files(mult_dest_path ''T-0'' \<mapsto>
                takeWhile (\<lambda>l. \<not> is_marker l) mult_source))
   \<and> takeWhile (\<lambda>l. \<not> is_marker l) mult_source = take 2 mult_source"
proof -
  have h1: "example_files (mult_source_path ''b.v'') = Some mult_source"
    by code_simp
  have h2: "mult_source_path ''b.v'' \<noteq> mult_dest_path ''T-0''"
    by code_simp
  have h3: "takeWhile (\<lambda>l. \<not> is_marker l) mult_source = take 2 mult_source"
    by code_simp
  from save_mult_file_prefix [where fs = example_files, OF h1 h2] h1 h2 h3 show ?thesis by blast
qed

text \<open>
  The claim as it stands fails on a source whose third line is the marker followed by a
  comment: no line of the source is the marker exactly, so that the claim has the whole
  file copied, and the code stops at the third line.
\<close>

theorem save_mult_file_exact_counterexample:
  "list_ex is_exact_marker mult_source = False
   \<and> example_files (mult_source_path ''b.v'') = Some mult_source
   \<and> file_after (save_mult_file example_files (Some ''b.v'') ''T-0'') (mult_dest_path ''T-0'')
       = Some [''module mult(a,b,p);'' @ [NL], ''endmodule'' @ [NL]]
   \<and> length mult_source = 4"
  by code_simp

text \<open>
  C8. \<^verbatim>\<open>save_mult_file\<close> is idempotent: the name it returns is derived from the round
  key alone, and running it again on the same name and key, in the file system the first
  run left, returns the same name and leaves every file as it is.
\<close>

theorem save_mult_file_idempotent:
  assumes "save_mult_file fs v k = Inr (n, fs')"
  shows "n = mult_template_name k \<and> save_mult_file fs' v k = Inr (n, fs')"
proof -
  from assms obtain name where v: "v = Some name"
    by (cases v) (simp_all add: save_mult_file_def)
  define src where "src = os_path_join (os_path_join BASE_DIR ''run_verilog_mult_mid'') name"
  define dst where "dst = os_path_join (os_path_join BASE_DIR ''multiplier_template'') (mult_template_name k)"
  from assms obtain ls0 where ex: "fs src = Some ls0"
    by (auto simp: save_mult_file_def v Let_def src_def split: if_splits)
  show ?thesis
  proof (cases "src = dst")
    case True
    with assms ex have r: "n = mult_template_name k" "fs' = fs(dst \<mapsto> [])"
      by (auto simp: save_mult_file_def v Let_def src_def[symmetric] dst_def[symmetric])
    show ?thesis using True r
      by (simp add: save_mult_file_def v Let_def src_def[symmetric] dst_def[symmetric])
  next
    case False
    with assms ex have r: "n = mult_template_name k" "fs' = fs(dst \<mapsto> mult_copy ls0)"
      by (auto simp: save_mult_file_def v Let_def src_def[symmetric] dst_def[symmetric])
    show ?thesis using False r ex
      by (simp add: save_mult_file_def v Let_def src_def[symmetric] dst_def[symmetric])
  qed
qed

theorem save_mult_file_idempotent_witness:
  "save_mult_file example_files (Some ''b.v'') ''T-0''
     = Inr (mult_template_name ''T-0'',
            example_files(mult_dest_path ''T-0'' \<mapsto> mult_copy mult_source))
   \<and> save_mult_file (example_files(mult_dest_path ''T-0'' \<mapsto> mult_copy mult_source))
        (Some ''b.v'') ''T-0''
     = Inr (mult_template_name ''T-0'',
            example_files(mult_dest_path ''T-0'' \<mapsto> mult_copy mult_source))"
proof -
  have h1: "example_files (mult_source_path ''b.v'') = Some mult_source"
    by code_simp
  have h2: "mult_source_path ''b.v'' \<noteq> mult_dest_path ''T-0''"
    by code_simp
  note first = save_mult_file_writes [where fs = example_files, OF h1 h2]
  from save_mult_file_idempotent [where fs = example_files, OF first] first show ?thesis by blast
qed

lemma marker_not_comment: "is_marker l \<Longrightarrow> \<not> is_comment l"
  by (cases l) (auto simp: is_marker_def is_comment_def startswith_def adder_marker_def)

lemma adder_keeps_at_end:
  "adder_keeps bw (pre @ x # xs) (length pre) =
     (if is_comment x
      then qualifying x \<and> int (length (filter qualifying pre)) < bw
      else list_ex is_marker pre \<or> is_marker x)"
  by (simp add: adder_keeps_def)

lemma adder_copy_selection:
  assumes "cnt = min (int (length (filter qualifying pre))) (max bw 0)"
    and "fa = list_ex is_marker pre"
  shows "adder_copy bw ls (cnt, fa) =
           map (\<lambda>n. (pre @ ls) ! n)
             (filter (adder_keeps bw (pre @ ls)) [length pre ..< length pre + length ls])"
  using assms
proof (induction ls arbitrary: pre cnt fa)
  case Nil
  show ?case by simp
next
  case (Cons x xs)
  let ?q = "int (length (filter qualifying pre))"
  have split: "[length pre ..< length pre + length (x # xs)]
                 = length pre # [length (pre @ [x]) ..< length (pre @ [x]) + length xs]"
    by (subst upt_rec) simp
  have keep: "adder_keeps bw (pre @ x # xs) (length pre) =
     (if is_comment x then qualifying x \<and> ?q < bw else list_ex is_marker pre \<or> is_marker x)"
    by (rule adder_keeps_at_end)
  have nth0: "(pre @ x # xs) ! length pre = x" by simp
  have cntlt: "cnt < bw \<longleftrightarrow> ?q < bw" using Cons.prems(1) by auto
  show ?case
  proof (cases "is_comment x")
    case False
    then have nq: "\<not> qualifying x" by (simp add: qualifying_def)
    have IH: "adder_copy bw xs (cnt, fa \<or> is_marker x) =
           map (\<lambda>n. ((pre @ [x]) @ xs) ! n)
             (filter (adder_keeps bw ((pre @ [x]) @ xs))
                [length (pre @ [x]) ..< length (pre @ [x]) + length xs])"
      by (rule Cons.IH) (use Cons.prems nq in simp_all)
    have step: "adder_copy bw (x # xs) (cnt, fa) =
        (if fa \<or> is_marker x then x # adder_copy bw xs (cnt, fa \<or> is_marker x)
         else adder_copy bw xs (cnt, fa \<or> is_marker x))"
      using False by (auto simp: is_comment_def is_marker_def Let_def)
    show ?thesis
      unfolding step IH split
      using False keep nth0 Cons.prems(2) by simp
  next
    case True
    show ?thesis
    proof (cases "qualifying x")
      case q: True
      then have no2: "CHR ''2'' \<notin> set x" by (simp add: qualifying_def)
      show ?thesis
      proof (cases "cnt < bw")
        case lt: True
        have IH: "adder_copy bw xs (cnt + 1, fa) =
           map (\<lambda>n. ((pre @ [x]) @ xs) ! n)
             (filter (adder_keeps bw ((pre @ [x]) @ xs))
                [length (pre @ [x]) ..< length (pre @ [x]) + length xs])"
          by (rule Cons.IH) (use Cons.prems q lt True marker_not_comment in auto)
        have step: "adder_copy bw (x # xs) (cnt, fa) = x # adder_copy bw xs (cnt + 1, fa)"
          using True no2 lt by (simp add: is_comment_def)
        show ?thesis
          unfolding step IH split
          using True q keep nth0 lt cntlt by simp
      next
        case ge: False
        have IH: "adder_copy bw xs (cnt, fa) =
           map (\<lambda>n. ((pre @ [x]) @ xs) ! n)
             (filter (adder_keeps bw ((pre @ [x]) @ xs))
                [length (pre @ [x]) ..< length (pre @ [x]) + length xs])"
          by (rule Cons.IH) (use Cons.prems q ge True marker_not_comment in auto)
        have step: "adder_copy bw (x # xs) (cnt, fa) = adder_copy bw xs (cnt, fa)"
          using True no2 ge by (simp add: is_comment_def)
        show ?thesis
          unfolding step IH split
          using True q keep nth0 ge cntlt by simp
      qed
    next
      case nq: False
      then have has2: "CHR ''2'' \<in> set x" using True by (simp add: qualifying_def)
      have IH: "adder_copy bw xs (cnt, fa) =
           map (\<lambda>n. ((pre @ [x]) @ xs) ! n)
             (filter (adder_keeps bw ((pre @ [x]) @ xs))
                [length (pre @ [x]) ..< length (pre @ [x]) + length xs])"
        by (rule Cons.IH) (use Cons.prems nq True marker_not_comment in auto)
      have step: "adder_copy bw (x # xs) (cnt, fa) = adder_copy bw xs (cnt, fa)"
        using True has2 by (simp add: is_comment_def)
      show ?thesis
        unfolding step IH split
        using True nq keep nth0 by simp
    qed
  qed
qed

lemma adder_copy_is_selection: "adder_copy bw ls (0, False) = adder_selection bw ls"
  using adder_copy_selection [of 0 "[]" bw False ls] by (simp add: adder_selection_def)


text \<open>
  C2 (amended). On a readable source file that is not the destination itself, \<^verbatim>\<open>save_adder_file\<close>
  writes exactly the lines of the source that the specification keeps, in order and
  unchanged: a comment line with a \<open>2\<close> never, a comment line without a \<open>2\<close> when fewer
  than \<open>bit_width\<close> such lines stand before it, a line that is not a comment when a line
  starting with the marker stands at or before it.
\<close>

theorem save_adder_file_selection:
  assumes "fs (adder_source_path name) = Some ls"
    and "adder_source_path name \<noteq> adder_dest_path key"
  shows "save_adder_file fs (Some name) key bit_width
           = Inr (adder_template_name key,
                  fs(adder_dest_path key \<mapsto> adder_selection bit_width ls))"
  using save_adder_file_writes [where fs = fs, OF assms] by (simp add: adder_copy_is_selection)

theorem save_adder_file_selection_witness:
  "example_files (adder_source_path ''b.v'') = Some adder_source
   \<and> adder_source_path ''b.v'' \<noteq> adder_dest_path ''T-0''
   \<and> save_adder_file example_files (Some ''b.v'') ''T-0'' 2
       = Inr (adder_template_name ''T-0'',
              example_files(adder_dest_path ''T-0'' \<mapsto> adder_selection 2 adder_source))
   \<and> adder_selection 2 adder_source
       = [''// in a'' @ [NL], ''// in b'' @ [NL], ''module adder(a,b,s);'' @ [NL],
          ''endmodule'' @ [NL]]"
proof -
  have h1: "example_files (adder_source_path ''b.v'') = Some adder_source"
    by code_simp
  have h2: "adder_source_path ''b.v'' \<noteq> adder_dest_path ''T-0''"
    by code_simp
  have h3: "adder_selection 2 adder_source
       = [''// in a'' @ [NL], ''// in b'' @ [NL], ''module adder(a,b,s);'' @ [NL],
          ''endmodule'' @ [NL]]"
    by code_simp
  from save_adder_file_selection [where fs = example_files, OF h1 h2] h1 h2 h3 show ?thesis by blast
qed

text \<open>
  The claim as it stands fails when the name of the source is the absolute path of the
  destination: the source is readable, the destination is opened for writing, and so
  emptied, before the first line is read, and nothing is written, though the selection
  of the claim keeps four lines of the source.
\<close>

theorem save_adder_file_alias_counterexample:
  "aliased_files (adder_source_path (adder_dest_path ''T-0'')) = Some adder_source
   \<and> file_after (save_adder_file aliased_files (Some (adder_dest_path ''T-0'')) ''T-0'' 2)
        (adder_dest_path ''T-0'')
       = Some []
   \<and> adder_selection 2 adder_source
       = [''// in a'' @ [NL], ''// in b'' @ [NL], ''module adder(a,b,s);'' @ [NL],
          ''endmodule'' @ [NL]]"
  by code_simp

section \<open>The controller\<close>

lemma str_900: "str_int each_iter_ppo = ''900''"
  by code_simp

lemma str_100: "str_int each_iter_mcts = ''100''"
  by code_simp

lemma ppo_cmd_first: "ppo_cmd W 0 t = Inr (stage1_command W 0)"
  by (simp add: ppo_cmd_def stage1_command_def str_900)

lemma ppo_cmd_later:
  "0 < k \<Longrightarrow> ppo_cmd W k (Some (adder_template_name (round_key W (k - 1)))) = Inr (stage1_command W k)"
  by (simp add: ppo_cmd_def stage1_command_def str_900)

lemma mcts_cmd_stage2:
  "mcts_cmd W k (mult_template_name (round_key W k)) = stage2_command W k"
  by (simp add: mcts_cmd_def stage2_command_def str_100)

lemma save_mult_file_name:
  "save_mult_file fs v k = Inr (n, fs') \<Longrightarrow> n = mult_template_name k"
  by (auto simp: save_mult_file_def Let_def split: option.splits if_splits)

lemma save_adder_file_name:
  "save_adder_file fs v k b = Inr (n, fs') \<Longrightarrow> n = adder_template_name k"
  by (auto simp: save_adder_file_def Let_def split: option.splits if_splits)

text \<open>The body up to the end of the stage-1 job.\<close>

lemma body_stage1_job_failed:
  assumes "ppo_cmd W (st_i s) (st_template_adder_name s) = Inr cmd"
    and "run_job W cmd (st_fs s) = ((False, out), files')"
  shows "body W s =
           Break (log_write (job_error_text ''PPO2_mult.py'' (st_i s) out)
                    ((round_started W s)\<lparr>st_fs := files', st_jobs := st_jobs s @ [cmd]\<rparr>))"
  using assms
  by (simp add: body_def read_elapsed_def round_started_def log_write_def
        capture_subprocess_output_def Let_def)

lemma body_stage1_selection:
  assumes "ppo_cmd W (st_i s) (st_template_adder_name s) = Inr cmd"
    and "run_job W cmd (st_fs s) = ((True, out), files')"
  shows "body W s =
     (let s3 = (round_started W s)\<lparr>st_fs := files', st_jobs := st_jobs s @ [cmd]\<rparr>
      in case get_best_file_from_ppo W files' (round_key W (st_i s)) (arg_input_bit W) of
           Inl (AssertionError e) \<Rightarrow> Break (log_write (e @ [NL]) s3)
         | Inl err \<Rightarrow> Raise err s3
         | Inr (verilog_file_name, data_line) \<Rightarrow>
        (let s4 = log_write (''PPO:'' @ [TAB] @ str_opt data_line @ [NL]) s3
         in case save_mult_file (st_fs s4) verilog_file_name (round_key W (st_i s)) of
           Inl err \<Rightarrow> Raise err s4
         | Inr (template_mult_name, fs5) \<Rightarrow>
        (case capture_subprocess_output W (mcts_cmd W (st_i s) template_mult_name)
                (s4\<lparr>st_fs := fs5\<rparr>) of
           ((success, mcts_output), s6) \<Rightarrow>
        if \<not> success
        then Break (log_write (job_error_text ''MCTS_mult.py'' (st_i s) mcts_output) s6)
        else
        (case get_best_file_from_mcts W (st_fs s6) (round_key W (st_i s)) (arg_input_bit W * 2) of
           Inl (AssertionError e) \<Rightarrow> Break (log_write (e @ [NL]) s6)
         | Inl err \<Rightarrow> Raise err s6
         | Inr (verilog_file_name, data_line) \<Rightarrow>
        (let s7 = log_write (''MCTS'' @ [TAB] @ str_opt data_line @ [NL]) s6
         in case save_adder_file (st_fs s7) verilog_file_name (round_key W (st_i s))
                   (arg_input_bit W * 2) of
           Inl err \<Rightarrow> Raise err s7
         | Inr (template_adder_name, fs8) \<Rightarrow>
             Continue (s7\<lparr>st_fs := fs8,
                          st_template_adder_name := Some template_adder_name,
                          st_i := st_i s + 1\<rparr>))))))"
  using assms
  by (simp add: body_def read_elapsed_def round_started_def log_write_def
        capture_subprocess_output_def Let_def)


lemma range_total_times: "[0..<total_times] = [0, 1, 2]"
  by code_simp

lemma main_unfold:
  "main W files =
     (case body W (initial_state files) of
        Continue s1 \<Rightarrow>
          (case body W (s1\<lparr>st_i := 1\<rparr>) of
             Continue s2 \<Rightarrow>
               (case body W (s2\<lparr>st_i := 2\<rparr>) of
                  Continue s3 \<Rightarrow> (LoopExhausted, final_time W s3)
                | Break s3 \<Rightarrow> (LoopBroken, final_time W s3)
                | Raise err s3 \<Rightarrow> (Uncaught err, s3))
           | Break s2 \<Rightarrow> (LoopBroken, final_time W s2)
           | Raise err s2 \<Rightarrow> (Uncaught err, s2))
      | Break s1 \<Rightarrow> (LoopBroken, final_time W s1)
      | Raise err s1 \<Rightarrow> (Uncaught err, s1))"
proof -
  have i0: "(initial_state files)\<lparr>st_i := 0\<rparr> = initial_state files"
    by (simp add: initial_state_def)
  show ?thesis
    by (simp add: main_def range_total_times i0 split: flow.splits)
qed

lemma str_int_0: "str_int 0 = ''0''"
  by (simp add: str_int_def str_nat.simps)

lemma stage1_command_first:
  "stage1_command W 0 =
     [''python3'', ''/content/ArithmeticTree/PPO2_mult.py'',
      ''--input_bit'', str_int (arg_input_bit W), ''--max_iter'', ''900'',
      ''--strftime'', timestamp W @ ''-0'']"
  by (simp add: stage1_command_def BASE_DIR_def os_path_join_def startswith_def
        round_key_def str_int_0)

text \<open>
  C6. When the stage-1 job of round 0 returns without success, the run log holds the
  line of round 0, one error entry that names iteration 0 and carries the output of the
  job, and the line of the total time; the files are those the job left, so that no
  template has been written; and the only job started is that stage-1 job: stage 2 is
  not started, nor is round 1.
\<close>

theorem stage1_failure_aborts:
  assumes "run_job W
             [''python3'', ''/content/ArithmeticTree/PPO2_mult.py'',
              ''--input_bit'', str_int (arg_input_bit W), ''--max_iter'', ''900'',
              ''--strftime'', timestamp W @ ''-0'']
             files
           = ((False, out), files')"
  shows "main W files =
           (LoopBroken,
            \<lparr>st_fs = files',
             st_flog = [''Iteration 0, Time elapsed: '' @ elapsed_2f W 0 @ '' seconds'' @ [NL],
                        ''[ERROR] PPO2_mult.py failed during iteration 0.'' @ [NL]
                          @ ''Output:'' @ [NL] @ out @ [NL],
                        ''Total Time Elapsed: '' @ elapsed_2f W 1 @ '' seconds'' @ [NL]],
             st_jobs = [[''python3'', ''/content/ArithmeticTree/PPO2_mult.py'',
                         ''--input_bit'', str_int (arg_input_bit W), ''--max_iter'', ''900'',
                         ''--strftime'', timestamp W @ ''-0'']],
             st_ticks = 2,
             st_template_adder_name = None,
             st_i = 0\<rparr>)"
proof -
  have c: "ppo_cmd W (st_i (initial_state files)) (st_template_adder_name (initial_state files))
             = Inr (stage1_command W 0)"
    by (simp add: initial_state_def ppo_cmd_first)
  have j: "run_job W (stage1_command W 0) (st_fs (initial_state files)) = ((False, out), files')"
    using assms by (simp add: initial_state_def stage1_command_first)
  show ?thesis
    unfolding main_unfold body_stage1_job_failed [OF c j]
    by (simp add: final_time_def read_elapsed_def log_write_def round_started_def
          initial_state_def iteration_text_def job_error_text_def str_int_0
          stage1_command_first)
qed

theorem stage1_failure_aborts_witness:
  "run_job failing_world
     [''python3'', ''/content/ArithmeticTree/PPO2_mult.py'',
      ''--input_bit'', str_int (arg_input_bit failing_world), ''--max_iter'', ''900'',
      ''--strftime'', timestamp failing_world @ ''-0'']
     example_files
     = ((False, ''boom'' @ [NL]), example_files)
   \<and> main failing_world example_files =
           (LoopBroken,
            \<lparr>st_fs = example_files,
             st_flog = [''Iteration 0, Time elapsed: '' @ elapsed_2f failing_world 0
                          @ '' seconds'' @ [NL],
                        ''[ERROR] PPO2_mult.py failed during iteration 0.'' @ [NL]
                          @ ''Output:'' @ [NL] @ (''boom'' @ [NL]) @ [NL],
                        ''Total Time Elapsed: '' @ elapsed_2f failing_world 1
                          @ '' seconds'' @ [NL]],
             st_jobs = [[''python3'', ''/content/ArithmeticTree/PPO2_mult.py'',
                         ''--input_bit'', str_int (arg_input_bit failing_world),
                         ''--max_iter'', ''900'',
                         ''--strftime'', timestamp failing_world @ ''-0'']],
             st_ticks = 2,
             st_template_adder_name = None,
             st_i = 0\<rparr>)"
proof -
  have h: "run_job failing_world
             [''python3'', ''/content/ArithmeticTree/PPO2_mult.py'',
              ''--input_bit'', str_int (arg_input_bit failing_world), ''--max_iter'', ''900'',
              ''--strftime'', timestamp failing_world @ ''-0'']
             example_files
             = ((False, ''boom'' @ [NL]), example_files)"
    by (simp add: failing_world_def)
  note t = stage1_failure_aborts
    [where W = failing_world and files = example_files and out = "''boom'' @ [NL]"
       and files' = example_files, OF h]
  show ?thesis
    by (rule conjI [OF h t])
qed

section \<open>Selection failures\<close>

lemma ppo_missing:
  "fs (ppo_log_path key width) = None \<Longrightarrow>
   get_best_file_from_ppo W fs key width
     = Inl (AssertionError (not_found_text (ppo_log_path key width)))"
  by (simp add: get_best_file_from_ppo_def not_found_text_def)

lemma mcts_missing:
  "fs (mcts_log_path key width) = None \<Longrightarrow>
   get_best_file_from_mcts W fs key width
     = Inl (AssertionError (not_found_text (mcts_log_path key width)))"
  by (simp add: get_best_file_from_mcts_def not_found_text_def)

lemma main_stage1_selection_failed:
  assumes "run_job W (stage1_command W 0) files = ((True, out), files')"
    and "get_best_file_from_ppo W files' (round_key W 0) (arg_input_bit W) = Inl err"
  shows "main W files =
     (case err of
        AssertionError e \<Rightarrow>
          (LoopBroken,
           \<lparr>st_fs = files',
            st_flog = [iteration_text 0 (elapsed_2f W 0), e @ [NL],
                       total_time_text (elapsed_2f W 1)],
            st_jobs = [stage1_command W 0], st_ticks = 2,
            st_template_adder_name = None, st_i = 0\<rparr>)
      | _ \<Rightarrow>
          (Uncaught err,
           \<lparr>st_fs = files',
            st_flog = [iteration_text 0 (elapsed_2f W 0)],
            st_jobs = [stage1_command W 0], st_ticks = 1,
            st_template_adder_name = None, st_i = 0\<rparr>))"
proof -
  have c: "ppo_cmd W (st_i (initial_state files)) (st_template_adder_name (initial_state files))
             = Inr (stage1_command W 0)"
    by (simp add: initial_state_def ppo_cmd_first)
  have j: "run_job W (stage1_command W 0) (st_fs (initial_state files)) = ((True, out), files')"
    using assms(1) by (simp add: initial_state_def)
  have i: "st_i (initial_state files) = 0" by (simp add: initial_state_def)
  have b: "body W (initial_state files) =
             (case err of
                AssertionError e \<Rightarrow>
                  Break (log_write (e @ [NL])
                    ((round_started W (initial_state files))
                       \<lparr>st_fs := files', st_jobs := st_jobs (initial_state files) @ [stage1_command W 0]\<rparr>))
              | _ \<Rightarrow>
                  Raise err
                    ((round_started W (initial_state files))
                       \<lparr>st_fs := files', st_jobs := st_jobs (initial_state files) @ [stage1_command W 0]\<rparr>))"
    unfolding body_stage1_selection [OF c j] i assms(2)
    by (cases err) (simp_all add: Let_def)
  show ?thesis
    unfolding main_unfold b
    by (cases err)
       (simp_all add: final_time_def read_elapsed_def log_write_def round_started_def
          initial_state_def total_time_text_def)
qed

text \<open>
  C4 (amended). Selection on a log path that does not exist fails with an assertion
  error whose message names the path; the controller catches it, writes the message to
  the run log, leaves the loop and ends the run with the line of the total time.
  Selection on a log that exists and has no record does not fail: it returns
  \<^verbatim>\<open>(None, None)\<close>.
\<close>

theorem selection_missing_or_empty:
  "(fs (ppo_log_path key width) = None \<longrightarrow>
      get_best_file_from_ppo W fs key width
        = Inl (AssertionError (not_found_text (ppo_log_path key width))))
   \<and> (fs (mcts_log_path key width) = None \<longrightarrow>
      get_best_file_from_mcts W fs key width
        = Inl (AssertionError (not_found_text (mcts_log_path key width))))
   \<and> (fs (ppo_log_path key width) = Some [] \<longrightarrow>
      get_best_file_from_ppo W fs key width = Inr (None, None))
   \<and> (fs (mcts_log_path key width) = Some [] \<longrightarrow>
      get_best_file_from_mcts W fs key width = Inr (None, None))
   \<and> (run_job W (stage1_command W 0) files = ((True, out), files')
      \<and> files' (ppo_log_path (round_key W 0) (arg_input_bit W)) = None \<longrightarrow>
      main W files =
        (LoopBroken,
         \<lparr>st_fs = files',
          st_flog = [iteration_text 0 (elapsed_2f W 0),
                     not_found_text (ppo_log_path (round_key W 0) (arg_input_bit W)) @ [NL],
                     total_time_text (elapsed_2f W 1)],
          st_jobs = [stage1_command W 0], st_ticks = 2,
          st_template_adder_name = None, st_i = 0\<rparr>))"
proof (intro conjI impI)
  assume "fs (ppo_log_path key width) = None"
  then show "get_best_file_from_ppo W fs key width
        = Inl (AssertionError (not_found_text (ppo_log_path key width)))"
    by (rule ppo_missing)
next
  assume "fs (mcts_log_path key width) = None"
  then show "get_best_file_from_mcts W fs key width
        = Inl (AssertionError (not_found_text (mcts_log_path key width)))"
    by (rule mcts_missing)
next
  assume "fs (ppo_log_path key width) = Some []"
  then show "get_best_file_from_ppo W fs key width = Inr (None, None)"
    by (simp add: get_best_file_from_ppo_def)
next
  assume "fs (mcts_log_path key width) = Some []"
  then show "get_best_file_from_mcts W fs key width = Inr (None, None)"
    by (simp add: get_best_file_from_mcts_def)
next
  assume a: "run_job W (stage1_command W 0) files = ((True, out), files')
      \<and> files' (ppo_log_path (round_key W 0) (arg_input_bit W)) = None"
  then have j: "run_job W (stage1_command W 0) files = ((True, out), files')"
    and m: "files' (ppo_log_path (round_key W 0) (arg_input_bit W)) = None"
    by simp_all
  show "main W files =
        (LoopBroken,
         \<lparr>st_fs = files',
          st_flog = [iteration_text 0 (elapsed_2f W 0),
                     not_found_text (ppo_log_path (round_key W 0) (arg_input_bit W)) @ [NL],
                     total_time_text (elapsed_2f W 1)],
          st_jobs = [stage1_command W 0], st_ticks = 2,
          st_template_adder_name = None, st_i = 0\<rparr>)"
    using main_stage1_selection_failed [OF j ppo_missing [where fs = files', OF m]]
    by simp
qed

theorem selection_missing_or_empty_witness:
  "files_without_logs (ppo_log_path ''T-0'' 16) = None
   \<and> get_best_file_from_ppo example_world files_without_logs ''T-0'' 16
       = Inl (AssertionError (not_found_text (ppo_log_path ''T-0'' 16)))
   \<and> files_without_logs (mcts_log_path ''T-0'' 16) = None
   \<and> get_best_file_from_mcts example_world files_without_logs ''T-0'' 16
       = Inl (AssertionError (not_found_text (mcts_log_path ''T-0'' 16)))
   \<and> files_with_empty_logs (ppo_log_path ''T-0'' 16) = Some []
   \<and> get_best_file_from_ppo example_world files_with_empty_logs ''T-0'' 16 = Inr (None, None)
   \<and> files_with_empty_logs (mcts_log_path ''T-0'' 16) = Some []
   \<and> get_best_file_from_mcts example_world files_with_empty_logs ''T-0'' 16 = Inr (None, None)
   \<and> run_job example_world (stage1_command example_world 0) files_without_logs
       = ((True, []), files_without_logs)
   \<and> files_without_logs
        (ppo_log_path (round_key example_world 0) (arg_input_bit example_world)) = None
   \<and> main example_world files_without_logs =
        (LoopBroken,
         \<lparr>st_fs = files_without_logs,
          st_flog = [iteration_text 0 (elapsed_2f example_world 0),
                     not_found_text
                       (ppo_log_path (round_key example_world 0) (arg_input_bit example_world))
                       @ [NL],
                     total_time_text (elapsed_2f example_world 1)],
          st_jobs = [stage1_command example_world 0], st_ticks = 2,
          st_template_adder_name = None, st_i = 0\<rparr>)"
proof -
  have h1: "files_without_logs (ppo_log_path ''T-0'' 16) = None" by code_simp
  have h2: "files_without_logs (mcts_log_path ''T-0'' 16) = None" by code_simp
  have h3: "files_with_empty_logs (ppo_log_path ''T-0'' 16) = Some []" by code_simp
  have h4: "files_with_empty_logs (mcts_log_path ''T-0'' 16) = Some []" by code_simp
  have h5: "run_job example_world (stage1_command example_world 0) files_without_logs
              = ((True, []), files_without_logs)"
    by (simp add: example_world_def)
  have h6: "files_without_logs
              (ppo_log_path (round_key example_world 0) (arg_input_bit example_world)) = None"
    by code_simp
  note t1 = selection_missing_or_empty
    [where fs = files_without_logs and key = "''T-0''" and width = 16 and W = example_world
       and files = files_without_logs and files' = files_without_logs and out = "[]"]
  note t2 = selection_missing_or_empty
    [where fs = files_with_empty_logs and key = "''T-0''" and width = 16 and W = example_world
       and files = files_without_logs and files' = files_without_logs and out = "[]"]
  note a1 = t1 [THEN conjunct1, THEN mp, OF h1]
  note a2 = t1 [THEN conjunct2, THEN conjunct1, THEN mp, OF h2]
  note a3 = t2 [THEN conjunct2, THEN conjunct2, THEN conjunct1, THEN mp, OF h3]
  note a4 = t2 [THEN conjunct2, THEN conjunct2, THEN conjunct2, THEN conjunct1, THEN mp, OF h4]
  note a5 = t1 [THEN conjunct2, THEN conjunct2, THEN conjunct2, THEN conjunct2, THEN mp,
                OF conjI [OF h5 h6]]
  show ?thesis
    by (intro conjI) (fact h1 a1 h2 a2 h3 a3 h4 a4 h5 h6 a5)+
qed

text \<open>
  The claim as it stands fails on a stage-1 log that exists and is empty: the selection
  returns \<^verbatim>\<open>(None, None)\<close> and no failure, the controller writes \<open>PPO:\<close> and \<open>None\<close> to
  the run log, and \<^verbatim>\<open>save_mult_file\<close> ends the process with a type error that nothing
  catches.
\<close>

theorem selection_empty_counterexample:
  "files_with_empty_logs (ppo_log_path ''T-0'' 16) = Some []
   \<and> get_best_file_from_ppo example_world files_with_empty_logs ''T-0'' 16 = Inr (None, None)
   \<and> fst (main example_world files_with_empty_logs) = Uncaught TypeError
   \<and> st_flog (snd (main example_world files_with_empty_logs))
       = [iteration_text 0 ''0.00'', ''PPO:'' @ [TAB] @ ''None'' @ [NL]]"
  by code_simp

section \<open>Malformed records\<close>

lemma float_item_cases:
  "float_item W parts k = Inl IndexError
   \<or> float_item W parts k = Inl ValueError
   \<or> (\<exists>v. float_item W parts k = Inr v \<and> k < length parts \<and> py_float W (parts ! k) = Some v)"
  by (auto simp: float_item_def item_def ebind_def split: option.splits)

lemma ppo_loop_Cons_malformed:
  assumes "\<not> well_formed W l"
  shows "ppo_loop W (l # ls) (b, f, d) = Inl IndexError
         \<or> ppo_loop W (l # ls) (b, f, d) = Inl ValueError"
proof -
  let ?p = "record_fields l"
  have u: "ppo_loop W (l # ls) (b, f, d) =
     ebind (float_item W ?p 1) (\<lambda>f1.
     ebind (float_item W ?p 2) (\<lambda>f2.
     ebind (float_item W ?p 3) (\<lambda>f3.
     ebind (float_item W ?p 4) (\<lambda>f4.
       let score =
             float_add (rnd W)
               (float_add (rnd W)
                  (float_add (rnd W) f1 (float_mul (rnd W) f2 (area_w W)))
                  f3)
               (float_mul (rnd W) f4 (area_w W))
       in if float_lt score b
          then ebind (item ?p 0) (\<lambda>p0. ppo_loop W ls (score, Some p0, Some (strip l)))
          else ppo_loop W ls (b, f, d)))))"
    by (simp add: Let_def record_fields_def cong: if_cong)
  note c1 = float_item_cases [of W ?p 1]
  note c2 = float_item_cases [of W ?p 2]
  note c3 = float_item_cases [of W ?p 3]
  note c4 = float_item_cases [of W ?p 4]
  show ?thesis
  proof (cases "\<exists>e. float_item W ?p 1 = Inl e \<or> float_item W ?p 2 = Inl e
                  \<or> float_item W ?p 3 = Inl e \<or> float_item W ?p 4 = Inl e")
    case False
    then have "well_formed W l"
      using c1 c2 c3 c4 by (fastforce simp: well_formed_def)
    with assms show ?thesis by simp
  next
    case True
    show ?thesis
    proof (cases "float_item W ?p 1")
      case (Inl e)
      then show ?thesis using c1 unfolding u by (auto simp: ebind_def)
    next
      case r1: (Inr v1)
      show ?thesis
      proof (cases "float_item W ?p 2")
        case (Inl e)
        then show ?thesis using c2 r1 unfolding u by (auto simp: ebind_def)
      next
        case r2: (Inr v2)
        show ?thesis
        proof (cases "float_item W ?p 3")
          case (Inl e)
          then show ?thesis using c3 r1 r2 unfolding u by (auto simp: ebind_def)
        next
          case r3: (Inr v3)
          from True r1 r2 r3 obtain e where "float_item W ?p 4 = Inl e" by auto
          then show ?thesis using c4 r1 r2 r3 unfolding u by (auto simp: ebind_def)
        qed
      qed
    qed
  qed
qed

lemma ppo_loop_malformed:
  assumes "\<not> list_all (well_formed W) ls"
  shows "ppo_loop W ls acc = Inl IndexError \<or> ppo_loop W ls acc = Inl ValueError"
  using assms
proof (induction ls arbitrary: acc)
  case Nil
  then show ?case by simp
next
  case (Cons l ls)
  obtain b f d where acc: "acc = (b, f, d)" by (cases acc) auto
  show ?case
  proof (cases "well_formed W l")
    case False
    then show ?thesis unfolding acc by (rule ppo_loop_Cons_malformed)
  next
    case True
    then have rest: "\<not> list_all (well_formed W) ls" using Cons.prems by simp
    show ?thesis
      unfolding acc ppo_loop_Cons_wf [OF True]
      using Cons.IH [OF rest] by simp
  qed
qed

text \<open>
  C5 (amended). When some line of a present log has fewer than five fields, or one of its
  fields 2 to 5 is rejected by \<^verbatim>\<open>float\<close>, selection raises an index error or a value
  error. The controller does not catch either: the exception ends the process, and the
  run log holds neither an entry for it nor the line of the total time.
\<close>

theorem selection_malformed:
  "(fs (ppo_log_path key width) = Some ls \<and> \<not> list_all (well_formed W) ls \<longrightarrow>
      get_best_file_from_ppo W fs key width = Inl IndexError
      \<or> get_best_file_from_ppo W fs key width = Inl ValueError)
   \<and> (fs (mcts_log_path key width) = Some ls \<and> \<not> list_all (well_formed W) ls \<longrightarrow>
      get_best_file_from_mcts W fs key width = Inl IndexError
      \<or> get_best_file_from_mcts W fs key width = Inl ValueError)
   \<and> (run_job W (stage1_command W 0) files = ((True, out), files')
      \<and> files' (ppo_log_path (round_key W 0) (arg_input_bit W)) = Some ls'
      \<and> \<not> list_all (well_formed W) ls' \<longrightarrow>
      (\<exists>err. (err = IndexError \<or> err = ValueError)
         \<and> main W files =
             (Uncaught err,
              \<lparr>st_fs = files',
               st_flog = [iteration_text 0 (elapsed_2f W 0)],
               st_jobs = [stage1_command W 0], st_ticks = 1,
               st_template_adder_name = None, st_i = 0\<rparr>)))"
proof (intro conjI impI)
  assume "fs (ppo_log_path key width) = Some ls \<and> \<not> list_all (well_formed W) ls"
  then show "get_best_file_from_ppo W fs key width = Inl IndexError
      \<or> get_best_file_from_ppo W fs key width = Inl ValueError"
    using ppo_loop_malformed [of W ls "(PInf, None, None)"]
    by (simp add: get_best_file_from_ppo_def)
next
  assume "fs (mcts_log_path key width) = Some ls \<and> \<not> list_all (well_formed W) ls"
  then show "get_best_file_from_mcts W fs key width = Inl IndexError
      \<or> get_best_file_from_mcts W fs key width = Inl ValueError"
    using ppo_loop_malformed [of W ls "(PInf, None, None)"]
    by (simp add: get_best_file_from_mcts_def mcts_loop_eq_ppo_loop)
next
  assume a: "run_job W (stage1_command W 0) files = ((True, out), files')
      \<and> files' (ppo_log_path (round_key W 0) (arg_input_bit W)) = Some ls'
      \<and> \<not> list_all (well_formed W) ls'"
  then have j: "run_job W (stage1_command W 0) files = ((True, out), files')"
    and l: "files' (ppo_log_path (round_key W 0) (arg_input_bit W)) = Some ls'"
    and m: "\<not> list_all (well_formed W) ls'"
    by simp_all
  have "get_best_file_from_ppo W files' (round_key W 0) (arg_input_bit W) = Inl IndexError
      \<or> get_best_file_from_ppo W files' (round_key W 0) (arg_input_bit W) = Inl ValueError"
    using ppo_loop_malformed [OF m, of "(PInf, None, None)"] l
    by (simp add: get_best_file_from_ppo_def)
  then obtain err where e: "err = IndexError \<or> err = ValueError"
    and s: "get_best_file_from_ppo W files' (round_key W 0) (arg_input_bit W) = Inl err"
    by blast
  have "main W files =
             (Uncaught err,
              \<lparr>st_fs = files',
               st_flog = [iteration_text 0 (elapsed_2f W 0)],
               st_jobs = [stage1_command W 0], st_ticks = 1,
               st_template_adder_name = None, st_i = 0\<rparr>)"
    using main_stage1_selection_failed [OF j s] e by auto
  with e show "\<exists>err. (err = IndexError \<or> err = ValueError)
         \<and> main W files =
             (Uncaught err,
              \<lparr>st_fs = files',
               st_flog = [iteration_text 0 (elapsed_2f W 0)],
               st_jobs = [stage1_command W 0], st_ticks = 1,
               st_template_adder_name = None, st_i = 0\<rparr>)"
    by blast
qed

theorem selection_malformed_witness:
  "files_with_short_log (ppo_log_path ''T-0'' 16) = Some short_log
   \<and> \<not> list_all (well_formed example_world) short_log
   \<and> (get_best_file_from_ppo example_world files_with_short_log ''T-0'' 16 = Inl IndexError
      \<or> get_best_file_from_ppo example_world files_with_short_log ''T-0'' 16 = Inl ValueError)
   \<and> [mcts_log_path ''T-0'' 16 \<mapsto> short_log] (mcts_log_path ''T-0'' 16) = Some short_log
   \<and> (get_best_file_from_mcts example_world [mcts_log_path ''T-0'' 16 \<mapsto> short_log] ''T-0'' 16
        = Inl IndexError
      \<or> get_best_file_from_mcts example_world [mcts_log_path ''T-0'' 16 \<mapsto> short_log] ''T-0'' 16
        = Inl ValueError)
   \<and> run_job example_world (stage1_command example_world 0) files_with_short_log
       = ((True, []), files_with_short_log)
   \<and> files_with_short_log
        (ppo_log_path (round_key example_world 0) (arg_input_bit example_world))
       = Some short_log
   \<and> (\<exists>err. (err = IndexError \<or> err = ValueError)
         \<and> main example_world files_with_short_log =
             (Uncaught err,
              \<lparr>st_fs = files_with_short_log,
               st_flog = [iteration_text 0 (elapsed_2f example_world 0)],
               st_jobs = [stage1_command example_world 0], st_ticks = 1,
               st_template_adder_name = None, st_i = 0\<rparr>))"
proof -
  have h1: "files_with_short_log (ppo_log_path ''T-0'' 16) = Some short_log" by code_simp
  have h2: "\<not> list_all (well_formed example_world) short_log" by code_simp
  have h3: "[mcts_log_path ''T-0'' 16 \<mapsto> short_log] (mcts_log_path ''T-0'' 16) = Some short_log"
    by simp
  have h4: "run_job example_world (stage1_command example_world 0) files_with_short_log
              = ((True, []), files_with_short_log)"
    by (simp add: example_world_def)
  have h5: "files_with_short_log
              (ppo_log_path (round_key example_world 0) (arg_input_bit example_world))
            = Some short_log"
    by code_simp
  note t1 = selection_malformed
    [where fs = files_with_short_log and key = "''T-0''" and width = 16 and W = example_world
       and ls = short_log and ls' = short_log
       and files = files_with_short_log and files' = files_with_short_log and out = "[]"]
  note t2 = selection_malformed
    [where fs = "[mcts_log_path ''T-0'' 16 \<mapsto> short_log]" and key = "''T-0''" and width = 16
       and W = example_world and ls = short_log and ls' = short_log
       and files = files_with_short_log and files' = files_with_short_log and out = "[]"]
  note a1 = t1 [THEN conjunct1, THEN mp, OF conjI [OF h1 h2]]
  note a2 = t2 [THEN conjunct2, THEN conjunct1, THEN mp, OF conjI [OF h3 h2]]
  note a3 = t1 [THEN conjunct2, THEN conjunct2, THEN mp, OF conjI [OF h4 conjI [OF h5 h2]]]
  show ?thesis
    by (intro conjI) (fact h1 h2 a1 h3 a2 h4 h5 a3)+
qed

text \<open>
  The claim as it stands fails on a stage-1 log whose only record has four fields: the
  selection raises an index error, which ends the process; the run log holds the line of
  round 0 and nothing else.
\<close>

theorem selection_malformed_counterexample:
  "get_best_file_from_ppo example_world files_with_short_log ''T-0'' 16 = Inl IndexError
   \<and> fst (main example_world files_with_short_log) = Uncaught IndexError
   \<and> st_flog (snd (main example_world files_with_short_log)) = [iteration_text 0 ''0.00'']"
  by code_simp

section \<open>Rounds that run to their end\<close>

lemma body_Continue:
  assumes b: "body W s = Continue s'"
    and c: "ppo_cmd W (st_i s) (st_template_adder_name s) = Inr cmd"
  shows "st_jobs s' = st_jobs s @ [cmd, mcts_cmd W (st_i s) (mult_template_name (round_key W (st_i s)))]
         \<and> st_template_adder_name s' = Some (adder_template_name (round_key W (st_i s)))
         \<and> st_ticks s' = st_ticks s + 1
         \<and> (\<exists>p m. st_flog s' = st_flog s @
               [iteration_text (st_i s) (elapsed_2f W (st_ticks s)),
                ''PPO:'' @ [TAB] @ p @ [NL], ''MCTS'' @ [TAB] @ m @ [NL]])"
proof -
  obtain ok out files' where j0: "run_job W cmd (st_fs s) = ((ok, out), files')"
    by (metis surj_pair)
  have ok: "ok"
  proof (rule ccontr)
    assume "\<not> ok"
    with j0 have "run_job W cmd (st_fs s) = ((False, out), files')" by simp
    from body_stage1_job_failed [OF c this] b show False by simp
  qed
  with j0 have j: "run_job W cmd (st_fs s) = ((True, out), files')" by simp
  from b [unfolded body_stage1_selection [OF c j]]
  show ?thesis
    by (auto simp: Let_def capture_subprocess_output_def log_write_def round_started_def
          split: sum.splits py_error.splits prod.splits if_splits
          dest!: save_mult_file_name save_adder_file_name)
qed


lemma main_exhausted_rounds:
  assumes "main W files = (LoopExhausted, s)"
  shows "\<exists>s1 s2 s3. body W (initial_state files) = Continue s1
           \<and> body W (s1\<lparr>st_i := 1\<rparr>) = Continue s2
           \<and> body W (s2\<lparr>st_i := 2\<rparr>) = Continue s3
           \<and> s = final_time W s3"
proof (cases "body W (initial_state files)")
  case (Continue s1)
  note b1 = this
  show ?thesis
  proof (cases "body W (s1\<lparr>st_i := 1\<rparr>)")
    case (Continue s2)
    note b2 = this
    show ?thesis
    proof (cases "body W (s2\<lparr>st_i := 2\<rparr>)")
      case (Continue s3)
      with assms b1 b2 have "s = final_time W s3"
        by (simp add: main_unfold)
      with b1 b2 Continue show ?thesis by blast
    next
      case (Break s3)
      with assms b1 b2 show ?thesis by (simp add: main_unfold)
    next
      case (Raise err s3)
      with assms b1 b2 show ?thesis by (simp add: main_unfold)
    qed
  next
    case (Break s2)
    with assms b1 show ?thesis by (simp add: main_unfold)
  next
    case (Raise err s2)
    with assms b1 show ?thesis by (simp add: main_unfold)
  qed
next
  case (Break s1)
  with assms show ?thesis by (simp add: main_unfold)
next
  case (Raise err s1)
  with assms show ?thesis by (simp add: main_unfold)
qed

lemma str_int_1: "str_int 1 = ''1''"
  by (simp add: str_int_def str_nat.simps)

lemma str_int_2: "str_int 2 = ''2''"
  by (simp add: str_int_def str_nat.simps)

lemmas command_defs =
  stage1_command_def stage2_command_def round_key_def BASE_DIR_def os_path_join_def
  startswith_def adder_template_name_def mult_template_name_def
  str_int_0 str_int_1 str_int_2

text \<open>
  C7 (amended). The increment of the round counter at the end of the loop body has no
  effect on the rounds: the loop binds the counter anew at each iteration. A run without
  failure starts, in this order, stage 1 and stage 2 with the key of round 0, of round 1
  and of round 2, the keys being consecutive; all three configured rounds are run, and
  the run log holds their lines numbered 0, 1 and 2.
\<close>

theorem rounds_use_consecutive_keys:
  assumes "main W files = (LoopExhausted, s)"
  shows "st_jobs s =
           [[''python3'', ''/content/ArithmeticTree/PPO2_mult.py'',
             ''--input_bit'', str_int (arg_input_bit W), ''--max_iter'', ''900'',
             ''--strftime'', timestamp W @ ''-0''],
            [''python3'', ''/content/ArithmeticTree/MCTS_mult.py'',
             ''--input_bit'', str_int (arg_input_bit W * 2), ''--max_iter'', ''100'',
             ''--template'', ''mult_template_'' @ timestamp W @ ''-0'' @ ''.v'',
             ''--strftime'', timestamp W @ ''-0'', ''--area_w'', area_w_2f W],
            [''python3'', ''/content/ArithmeticTree/PPO2_mult.py'',
             ''--input_bit'', str_int (arg_input_bit W), ''--max_iter'', ''900'',
             ''--strftime'', timestamp W @ ''-1'',
             ''--template'', ''adder_template_'' @ timestamp W @ ''-0'' @ ''.v''],
            [''python3'', ''/content/ArithmeticTree/MCTS_mult.py'',
             ''--input_bit'', str_int (arg_input_bit W * 2), ''--max_iter'', ''100'',
             ''--template'', ''mult_template_'' @ timestamp W @ ''-1'' @ ''.v'',
             ''--strftime'', timestamp W @ ''-1'', ''--area_w'', area_w_2f W,
             ''--init_state''],
            [''python3'', ''/content/ArithmeticTree/PPO2_mult.py'',
             ''--input_bit'', str_int (arg_input_bit W), ''--max_iter'', ''900'',
             ''--strftime'', timestamp W @ ''-2'',
             ''--template'', ''adder_template_'' @ timestamp W @ ''-1'' @ ''.v''],
            [''python3'', ''/content/ArithmeticTree/MCTS_mult.py'',
             ''--input_bit'', str_int (arg_input_bit W * 2), ''--max_iter'', ''100'',
             ''--template'', ''mult_template_'' @ timestamp W @ ''-2'' @ ''.v'',
             ''--strftime'', timestamp W @ ''-2'', ''--area_w'', area_w_2f W,
             ''--init_state'']]
         \<and> (\<exists>p0 m0 p1 m1 p2 m2.
              st_flog s =
                [''Iteration 0, Time elapsed: '' @ elapsed_2f W 0 @ '' seconds'' @ [NL],
                 ''PPO:'' @ [TAB] @ p0 @ [NL], ''MCTS'' @ [TAB] @ m0 @ [NL],
                 ''Iteration 1, Time elapsed: '' @ elapsed_2f W 1 @ '' seconds'' @ [NL],
                 ''PPO:'' @ [TAB] @ p1 @ [NL], ''MCTS'' @ [TAB] @ m1 @ [NL],
                 ''Iteration 2, Time elapsed: '' @ elapsed_2f W 2 @ '' seconds'' @ [NL],
                 ''PPO:'' @ [TAB] @ p2 @ [NL], ''MCTS'' @ [TAB] @ m2 @ [NL],
                 ''Total Time Elapsed: '' @ elapsed_2f W 3 @ '' seconds'' @ [NL]])"
proof -
  from main_exhausted_rounds [OF assms]
  obtain s1 s2 s3 where b1: "body W (initial_state files) = Continue s1"
    and b2: "body W (s1\<lparr>st_i := 1\<rparr>) = Continue s2"
    and b3: "body W (s2\<lparr>st_i := 2\<rparr>) = Continue s3"
    and fin: "s = final_time W s3"
    by blast
  have c1: "ppo_cmd W (st_i (initial_state files)) (st_template_adder_name (initial_state files))
              = Inr (stage1_command W 0)"
    by (simp add: initial_state_def ppo_cmd_first)
  note r1 = body_Continue [OF b1 c1]
  have c2: "ppo_cmd W (st_i (s1\<lparr>st_i := 1\<rparr>)) (st_template_adder_name (s1\<lparr>st_i := 1\<rparr>))
              = Inr (stage1_command W 1)"
    using r1 ppo_cmd_later [of 1 W] by (simp add: initial_state_def)
  note r2 = body_Continue [OF b2 c2]
  have c3: "ppo_cmd W (st_i (s2\<lparr>st_i := 2\<rparr>)) (st_template_adder_name (s2\<lparr>st_i := 2\<rparr>))
              = Inr (stage1_command W 2)"
    using r2 ppo_cmd_later [of 2 W] by simp
  note r3 = body_Continue [OF b3 c3]
  have j1: "st_jobs s1 = [stage1_command W 0, stage2_command W 0]"
    using r1 by (simp add: initial_state_def mcts_cmd_stage2)
  have j2: "st_jobs s2 = st_jobs s1 @ [stage1_command W 1, stage2_command W 1]"
    using r2 by (simp add: mcts_cmd_stage2)
  have j3: "st_jobs s3 = st_jobs s2 @ [stage1_command W 2, stage2_command W 2]"
    using r3 by (simp add: mcts_cmd_stage2)
  have t1: "st_ticks s1 = 1" using r1 by (simp add: initial_state_def)
  have t2: "st_ticks s2 = 2" using r2 t1 by simp
  have t3: "st_ticks s3 = 3" using r3 t2 by simp
  from r1 obtain p0 m0 where l1: "st_flog s1 =
      [iteration_text 0 (elapsed_2f W 0), ''PPO:'' @ [TAB] @ p0 @ [NL], ''MCTS'' @ [TAB] @ m0 @ [NL]]"
    by (auto simp: initial_state_def)
  from r2 t1 obtain p1 m1 where l2: "st_flog s2 = st_flog s1 @
      [iteration_text 1 (elapsed_2f W 1), ''PPO:'' @ [TAB] @ p1 @ [NL], ''MCTS'' @ [TAB] @ m1 @ [NL]]"
    by auto
  from r3 t2 obtain p2 m2 where l3: "st_flog s3 = st_flog s2 @
      [iteration_text 2 (elapsed_2f W 2), ''PPO:'' @ [TAB] @ p2 @ [NL], ''MCTS'' @ [TAB] @ m2 @ [NL]]"
    by auto
  have fj: "st_jobs s = st_jobs s3"
    unfolding fin by (simp add: final_time_def read_elapsed_def log_write_def)
  have fl: "st_flog s = st_flog s3 @ [total_time_text (elapsed_2f W 3)]"
    unfolding fin using t3
    by (simp add: final_time_def read_elapsed_def log_write_def total_time_text_def)
  have jobs: "st_jobs s =
           [stage1_command W 0, stage2_command W 0,
            stage1_command W 1, stage2_command W 1,
            stage1_command W 2, stage2_command W 2]"
    unfolding fj j3 j2 j1 by simp
  have log: "st_flog s =
                [iteration_text 0 (elapsed_2f W 0),
                 ''PPO:'' @ [TAB] @ p0 @ [NL], ''MCTS'' @ [TAB] @ m0 @ [NL],
                 iteration_text 1 (elapsed_2f W 1),
                 ''PPO:'' @ [TAB] @ p1 @ [NL], ''MCTS'' @ [TAB] @ m1 @ [NL],
                 iteration_text 2 (elapsed_2f W 2),
                 ''PPO:'' @ [TAB] @ p2 @ [NL], ''MCTS'' @ [TAB] @ m2 @ [NL],
                 total_time_text (elapsed_2f W 3)]"
    unfolding fl l3 l2 l1 by simp
  show ?thesis
  proof (rule conjI)
    show "st_jobs s =
           [[''python3'', ''/content/ArithmeticTree/PPO2_mult.py'',
             ''--input_bit'', str_int (arg_input_bit W), ''--max_iter'', ''900'',
             ''--strftime'', timestamp W @ ''-0''],
            [''python3'', ''/content/ArithmeticTree/MCTS_mult.py'',
             ''--input_bit'', str_int (arg_input_bit W * 2), ''--max_iter'', ''100'',
             ''--template'', ''mult_template_'' @ timestamp W @ ''-0'' @ ''.v'',
             ''--strftime'', timestamp W @ ''-0'', ''--area_w'', area_w_2f W],
            [''python3'', ''/content/ArithmeticTree/PPO2_mult.py'',
             ''--input_bit'', str_int (arg_input_bit W), ''--max_iter'', ''900'',
             ''--strftime'', timestamp W @ ''-1'',
             ''--template'', ''adder_template_'' @ timestamp W @ ''-0'' @ ''.v''],
            [''python3'', ''/content/ArithmeticTree/MCTS_mult.py'',
             ''--input_bit'', str_int (arg_input_bit W * 2), ''--max_iter'', ''100'',
             ''--template'', ''mult_template_'' @ timestamp W @ ''-1'' @ ''.v'',
             ''--strftime'', timestamp W @ ''-1'', ''--area_w'', area_w_2f W,
             ''--init_state''],
            [''python3'', ''/content/ArithmeticTree/PPO2_mult.py'',
             ''--input_bit'', str_int (arg_input_bit W), ''--max_iter'', ''900'',
             ''--strftime'', timestamp W @ ''-2'',
             ''--template'', ''adder_template_'' @ timestamp W @ ''-1'' @ ''.v''],
            [''python3'', ''/content/ArithmeticTree/MCTS_mult.py'',
             ''--input_bit'', str_int (arg_input_bit W * 2), ''--max_iter'', ''100'',
             ''--template'', ''mult_template_'' @ timestamp W @ ''-2'' @ ''.v'',
             ''--strftime'', timestamp W @ ''-2'', ''--area_w'', area_w_2f W,
             ''--init_state'']]"
      unfolding jobs by (simp add: command_defs)
  next
    have "st_flog s =
                [''Iteration 0, Time elapsed: '' @ elapsed_2f W 0 @ '' seconds'' @ [NL],
                 ''PPO:'' @ [TAB] @ p0 @ [NL], ''MCTS'' @ [TAB] @ m0 @ [NL],
                 ''Iteration 1, Time elapsed: '' @ elapsed_2f W 1 @ '' seconds'' @ [NL],
                 ''PPO:'' @ [TAB] @ p1 @ [NL], ''MCTS'' @ [TAB] @ m1 @ [NL],
                 ''Iteration 2, Time elapsed: '' @ elapsed_2f W 2 @ '' seconds'' @ [NL],
                 ''PPO:'' @ [TAB] @ p2 @ [NL], ''MCTS'' @ [TAB] @ m2 @ [NL],
                 ''Total Time Elapsed: '' @ elapsed_2f W 3 @ '' seconds'' @ [NL]]"
      unfolding log
      by (simp add: iteration_text_def total_time_text_def str_int_0 str_int_1 str_int_2)
    then show "\<exists>p0 m0 p1 m1 p2 m2.
              st_flog s =
                [''Iteration 0, Time elapsed: '' @ elapsed_2f W 0 @ '' seconds'' @ [NL],
                 ''PPO:'' @ [TAB] @ p0 @ [NL], ''MCTS'' @ [TAB] @ m0 @ [NL],
                 ''Iteration 1, Time elapsed: '' @ elapsed_2f W 1 @ '' seconds'' @ [NL],
                 ''PPO:'' @ [TAB] @ p1 @ [NL], ''MCTS'' @ [TAB] @ m1 @ [NL],
                 ''Iteration 2, Time elapsed: '' @ elapsed_2f W 2 @ '' seconds'' @ [NL],
                 ''PPO:'' @ [TAB] @ p2 @ [NL], ''MCTS'' @ [TAB] @ m2 @ [NL],
                 ''Total Time Elapsed: '' @ elapsed_2f W 3 @ '' seconds'' @ [NL]]"
      by (intro exI)
  qed
qed

theorem rounds_use_consecutive_keys_witness:
  "main exact_world example_files = (LoopExhausted, example_end)
   \<and> st_jobs example_end =
       [[''python3'', ''/content/ArithmeticTree/PPO2_mult.py'',
         ''--input_bit'', str_int (arg_input_bit exact_world), ''--max_iter'', ''900'',
         ''--strftime'', timestamp exact_world @ ''-0''],
        [''python3'', ''/content/ArithmeticTree/MCTS_mult.py'',
         ''--input_bit'', str_int (arg_input_bit exact_world * 2), ''--max_iter'', ''100'',
         ''--template'', ''mult_template_'' @ timestamp exact_world @ ''-0'' @ ''.v'',
         ''--strftime'', timestamp exact_world @ ''-0'', ''--area_w'', area_w_2f exact_world],
        [''python3'', ''/content/ArithmeticTree/PPO2_mult.py'',
         ''--input_bit'', str_int (arg_input_bit exact_world), ''--max_iter'', ''900'',
         ''--strftime'', timestamp exact_world @ ''-1'',
         ''--template'', ''adder_template_'' @ timestamp exact_world @ ''-0'' @ ''.v''],
        [''python3'', ''/content/ArithmeticTree/MCTS_mult.py'',
         ''--input_bit'', str_int (arg_input_bit exact_world * 2), ''--max_iter'', ''100'',
         ''--template'', ''mult_template_'' @ timestamp exact_world @ ''-1'' @ ''.v'',
         ''--strftime'', timestamp exact_world @ ''-1'', ''--area_w'', area_w_2f exact_world,
         ''--init_state''],
        [''python3'', ''/content/ArithmeticTree/PPO2_mult.py'',
         ''--input_bit'', str_int (arg_input_bit exact_world), ''--max_iter'', ''900'',
         ''--strftime'', timestamp exact_world @ ''-2'',
         ''--template'', ''adder_template_'' @ timestamp exact_world @ ''-1'' @ ''.v''],
        [''python3'', ''/content/ArithmeticTree/MCTS_mult.py'',
         ''--input_bit'', str_int (arg_input_bit exact_world * 2), ''--max_iter'', ''100'',
         ''--template'', ''mult_template_'' @ timestamp exact_world @ ''-2'' @ ''.v'',
         ''--strftime'', timestamp exact_world @ ''-2'', ''--area_w'', area_w_2f exact_world,
         ''--init_state'']]"
proof -
  have e: "fst (main exact_world example_files) = LoopExhausted"
    by code_simp
  have h: "main exact_world example_files = (LoopExhausted, example_end)"
    unfolding example_end_def using e by (simp add: prod_eq_iff)
  note t = rounds_use_consecutive_keys [OF h, THEN conjunct1]
  show ?thesis
    by (rule conjI [OF h t])
qed

text \<open>
  The claim as it stands fails on the example run, which ends without failure: the keys
  of its six jobs are \<open>T-0\<close>, \<open>T-0\<close>, \<open>T-1\<close>, \<open>T-1\<close>, \<open>T-2\<close>, \<open>T-2\<close>, so that no slot
  of the numbering is skipped.
\<close>

theorem rounds_skip_counterexample:
  "fst (main exact_world example_files) = LoopExhausted
   \<and> st_jobs example_end =
       [[''python3'', ''/content/ArithmeticTree/PPO2_mult.py'', ''--input_bit'', ''16'',
         ''--max_iter'', ''900'', ''--strftime'', ''T-0''],
        [''python3'', ''/content/ArithmeticTree/MCTS_mult.py'', ''--input_bit'', ''32'',
         ''--max_iter'', ''100'', ''--template'', ''mult_template_T-0.v'',
         ''--strftime'', ''T-0'', ''--area_w'', ''2.00''],
        [''python3'', ''/content/ArithmeticTree/PPO2_mult.py'', ''--input_bit'', ''16'',
         ''--max_iter'', ''900'', ''--strftime'', ''T-1'',
         ''--template'', ''adder_template_T-0.v''],
        [''python3'', ''/content/ArithmeticTree/MCTS_mult.py'', ''--input_bit'', ''32'',
         ''--max_iter'', ''100'', ''--template'', ''mult_template_T-1.v'',
         ''--strftime'', ''T-1'', ''--area_w'', ''2.00'', ''--init_state''],
        [''python3'', ''/content/ArithmeticTree/PPO2_mult.py'', ''--input_bit'', ''16'',
         ''--max_iter'', ''900'', ''--strftime'', ''T-2'',
         ''--template'', ''adder_template_T-1.v''],
        [''python3'', ''/content/ArithmeticTree/MCTS_mult.py'', ''--input_bit'', ''32'',
         ''--max_iter'', ''100'', ''--template'', ''mult_template_T-2.v'',
         ''--strftime'', ''T-2'', ''--area_w'', ''2.00'', ''--init_state'']]"
  by code_simp

section \<open>The lines of the winners\<close>







end
